theory Spec2Isabelle
  imports Complex_Main "HOL-Library.Char_ord" "HOL-Library.List_Lexorder"
begin

section \<open>Medicare Advantage data build: the helper functions of functions.py\<close>

text \<open>
  The module reads four kinds of CSV extracts into tables, joins contract and enrollment
  tables per month, and reconciles the MA and MA-PD premium tables of a year.  Every table
  has a fixed list of column names, so a table is a list of records, one record per row,
  in row order.  A missing value (NaN, \<open>pd.NA\<close>) is \<open>None\<close>; a float that is not NaN is a
  \<open>real\<close>, and infinities are not represented.  An exception is a value of \<open>error\<close>, and
  a function that can raise returns \<open>error + 'a\<close>.
\<close>

subsection \<open>Errors\<close>

datatype error =
    FileNotFoundError string
  | ValueError string
  | ParserError
  | KeyError

definition bind_err :: "error + 'a \<Rightarrow> ('a \<Rightarrow> error + 'b) \<Rightarrow> error + 'b" where
  "bind_err m f = (case m of Inl e \<Rightarrow> Inl e | Inr x \<Rightarrow> f x)"

fun map_err :: "('a \<Rightarrow> error + 'b) \<Rightarrow> 'a list \<Rightarrow> error + 'b list" where
  "map_err f [] = Inr []"
| "map_err f (x # xs) =
     (case f x of
        Inl e \<Rightarrow> Inl e
      | Inr y \<Rightarrow> (case map_err f xs of Inl e \<Rightarrow> Inl e | Inr ys \<Rightarrow> Inr (y # ys)))"

subsection \<open>Table operations of the data-frame library\<close>

text \<open>
  \<open>drop_duplicates(subset=..., keep="first")\<close>: a row stays when no earlier row has the
  same values in the subset columns.  Two missing values count as the same value, as
  equality on \<open>option\<close> has it.
\<close>

fun drop_duplicates :: "('r \<Rightarrow> 'k) \<Rightarrow> 'r list \<Rightarrow> 'r list" where
  "drop_duplicates key [] = []"
| "drop_duplicates key (r # rs) =
     r # drop_duplicates key (filter (\<lambda>s. key s \<noteq> key r) rs)"

text \<open>
  \<open>sort_values(by=[...])\<close> on several columns is a stable sort in the lexicographic order
  of the columns, each column ascending with its missing values last.
\<close>

fun na_last_less :: "('a :: linorder) option \<Rightarrow> 'a option \<Rightarrow> bool" where
  "na_last_less (Some a) (Some b) = (a < b)"
| "na_last_less (Some a) None = True"
| "na_last_less None b = False"

fun insort_by :: "('r \<Rightarrow> 'r \<Rightarrow> bool) \<Rightarrow> 'r \<Rightarrow> 'r list \<Rightarrow> 'r list" where
  "insort_by lt x [] = [x]"
| "insort_by lt x (y # ys) =
     (if lt y x then y # insort_by lt x ys else x # y # ys)"

definition sort_values :: "('r \<Rightarrow> 'r \<Rightarrow> bool) \<Rightarrow> 'r list \<Rightarrow> 'r list" where
  "sort_values lt rs = foldr (insort_by lt) rs []"

text \<open>
  \<open>groupby(keys)[col].ffill()\<close>: within the rows that share a key, in row order, a
  missing value is replaced by the last value present before it.  With the library's
  default \<open>dropna=True\<close> a row whose key has a missing component belongs to no group,
  and its entry in the result is missing.  \<open>prev\<close> holds, per key, the value to fill
  with.  The result is the new column.
\<close>

fun groupby_ffill ::
  "('r \<Rightarrow> 'k) \<Rightarrow> ('k \<Rightarrow> bool) \<Rightarrow> ('r \<Rightarrow> 'v option) \<Rightarrow> ('k \<Rightarrow> 'v option) \<Rightarrow> 'r list
     \<Rightarrow> 'v option list" where
  "groupby_ffill key isnull col prev [] = []"
| "groupby_ffill key isnull col prev (r # rs) =
     (if isnull (key r) then None # groupby_ffill key isnull col prev rs
      else
        (let v = (case col r of Some x \<Rightarrow> Some x | None \<Rightarrow> prev (key r))
         in v # groupby_ffill key isnull col (prev(key r := v)) rs))"

text \<open>
  \<open>left.merge(right, on=keys, how="left")\<close>: the left rows in their order, each one paired
  with every right row of the same key in the right table's order, or once with no right
  row when there is none.  Missing key values match each other.
\<close>

definition merge_left ::
  "('l \<Rightarrow> 'k) \<Rightarrow> ('r \<Rightarrow> 'k) \<Rightarrow> ('l \<Rightarrow> 'r option \<Rightarrow> 'o) \<Rightarrow> 'l list \<Rightarrow> 'r list \<Rightarrow> 'o list" where
  "merge_left kl kr mk ls rs =
     concat (map (\<lambda>l.
       (let ms = filter (\<lambda>r. kr r = kl l) rs
        in if ms = [] then [mk l None] else map (\<lambda>r. mk l (Some r)) ms)) ls)"

text \<open>
  \<open>how="outer"\<close> adds the right rows whose key no left row has.  The library returns the
  rows of an outer merge ordered by key; here the left part comes first and the
  right-only rows follow, and nothing below depends on the order of the result.
\<close>

definition merge_outer ::
  "('l \<Rightarrow> 'k) \<Rightarrow> ('r \<Rightarrow> 'k) \<Rightarrow> ('l option \<Rightarrow> 'r option \<Rightarrow> 'o) \<Rightarrow> 'l list \<Rightarrow> 'r list \<Rightarrow> 'o list" where
  "merge_outer kl kr mk ls rs =
     merge_left kl kr (\<lambda>l. mk (Some l)) ls rs @
     map (\<lambda>r. mk None (Some r)) (filter (\<lambda>r. kr r \<notin> kl ` set ls) rs)"

section \<open>Reading the extracts\<close>

subsection \<open>Text of the standard library\<close>

text \<open>
  \<open>int(m)\<close> on a string: surrounding white space is dropped, a sign may lead, and the
  digits may be separated by single underscores; anything else raises \<open>ValueError\<close>
  (\<open>None\<close> here).  A character is a code point below 256, as the extracts are decoded:
  the white space \<open>int\<close> drops among them is tab to carriage return, the space, and the
  code points 133 and 160, and the only decimal digits are the ASCII ones.
\<close>

definition is_space :: "char \<Rightarrow> bool" where
  "is_space c = ((of_char c :: nat) \<in> {9, 10, 11, 12, 13, 32, 133, 160})"

definition py_strip :: "string \<Rightarrow> string" where
  "py_strip s = dropWhile is_space (rev (dropWhile is_space (rev s)))"

definition digit_val :: "char \<Rightarrow> nat option" where
  "digit_val c =
     (if 48 \<le> (of_char c :: nat) \<and> (of_char c :: nat) \<le> 57 then Some (of_char c - 48) else None)"

fun py_digits :: "nat \<Rightarrow> string \<Rightarrow> nat option" where
  "py_digits acc [] = Some acc"
| "py_digits acc [c] =
     (case digit_val c of None \<Rightarrow> None | Some v \<Rightarrow> Some (10 * acc + v))"
| "py_digits acc (c # d # ds) =
     (if c = CHR ''_'' then
        (case digit_val d of None \<Rightarrow> None | Some v \<Rightarrow> py_digits (10 * acc + v) ds)
      else
        (case digit_val c of None \<Rightarrow> None | Some v \<Rightarrow> py_digits (10 * acc + v) (d # ds)))"

definition py_nat :: "string \<Rightarrow> nat option" where
  "py_nat s =
     (case s of
        [] \<Rightarrow> None
      | c # cs \<Rightarrow> (case digit_val c of None \<Rightarrow> None | Some v \<Rightarrow> py_digits v cs))"

definition py_int :: "string \<Rightarrow> int option" where
  "py_int s =
     (case py_strip s of
        [] \<Rightarrow> None
      | c # cs \<Rightarrow>
          if c = CHR ''-'' then map_option (\<lambda>n. - int n) (py_nat cs)
          else if c = CHR ''+'' then map_option int (py_nat cs)
          else map_option int (py_nat (c # cs)))"

text \<open>The decimal text of an integer, as an f-string writes \<open>{y}\<close>.\<close>

fun str_nat :: "nat \<Rightarrow> string" where
  "str_nat n =
     (if n < 10 then [char_of (48 + n)]
      else str_nat (n div 10) @ [char_of (48 + n mod 10)])"

declare str_nat.simps [simp del]

definition str_int :: "int \<Rightarrow> string" where
  "str_int i = (if i < 0 then CHR ''-'' # str_nat (nat (- i)) else str_nat (nat i))"

subsection \<open>Fields of \<open>read_csv\<close>\<close>

text \<open>
  The tokenizer of the CSV reader is not part of this development: a file is given as
  its lines, each line as its list of fields, the header line first.  The text-to-number
  conversions of the library are parameters: \<open>float_of_text\<close> and \<open>int_of_text\<close> give
  \<open>None\<close> for a text that is not a number.
\<close>

record parsers =
  float_of_text :: "string \<Rightarrow> real option"
  int_of_text :: "string \<Rightarrow> int option"

type_synonym csv = "string list list"
type_synonym files = "string \<Rightarrow> csv option"

text \<open>
  The texts every \<open>read_csv\<close> call takes for a missing value (\<open>keep_default_na=True\<close>);
  the \<open>na_values\<close> argument adds to them.
\<close>

definition STR_NA_VALUES :: "string list" where
  "STR_NA_VALUES =
     [[], ''#N/A'', ''#N/A N/A'', ''#NA'', ''-1.#IND'', ''-1.#QNAN'', ''-NaN'', ''-nan'',
      ''1.#IND'', ''1.#QNAN'', ''<NA>'', ''N/A'', ''NA'', ''NULL'', ''NaN'', ''None'',
      ''n/a'', ''nan'', ''null'']"

definition is_na :: "string list \<Rightarrow> string \<Rightarrow> bool" where
  "is_na na_values s = (s \<in> set na_values \<or> s \<in> set STR_NA_VALUES)"

text \<open>A column of \<open>dtype\<close> \<open>str\<close>: the text stays as it is unless it is a missing-value text.\<close>

definition as_str :: "string list \<Rightarrow> string \<Rightarrow> string option" where
  "as_str na_values s = (if is_na na_values s then None else Some s)"

text \<open>
  A column of \<open>dtype\<close> \<open>float\<close> or \<open>Int64\<close>: a text that is neither missing nor a number
  makes \<open>read_csv\<close> raise \<open>ValueError\<close>.
\<close>

definition as_float :: "parsers \<Rightarrow> string list \<Rightarrow> string \<Rightarrow> error + real option" where
  "as_float P na_values s =
     (if is_na na_values s then Inr None
      else case float_of_text P s of None \<Rightarrow> Inl (ValueError s) | Some x \<Rightarrow> Inr (Some x))"

definition as_Int64 :: "parsers \<Rightarrow> string list \<Rightarrow> string \<Rightarrow> error + int option" where
  "as_Int64 P na_values s =
     (if is_na na_values s then Inr None
      else case int_of_text P s of None \<Rightarrow> Inl (ValueError s) | Some x \<Rightarrow> Inr (Some x))"

text \<open>
  With \<open>names\<close> given, the fields of a line are taken by position; a line with fewer
  fields than names has its last columns missing, which is what the empty text gives.
  A line with more fields than names is reported as \<open>ParserError\<close>.  \<open>skiprows=1\<close> drops
  the header line; a file with no line at all is read like a file with only that line.
\<close>

definition field :: "string list \<Rightarrow> nat \<Rightarrow> string" where
  "field line i = (if i < length line then line ! i else [])"

definition read_csv ::
  "files \<Rightarrow> string \<Rightarrow> nat \<Rightarrow> (string list \<Rightarrow> error + 'r) \<Rightarrow> error + 'r list" where
  "read_csv fs path ncols conv =
     (case fs path of
        None \<Rightarrow>
          Inl (FileNotFoundError
                 (''[Errno 2] No such file or directory: '' @ [CHR 0x27] @ path @ [CHR 0x27]))
      | Some lines \<Rightarrow>
          map_err (\<lambda>line. if ncols < length line then Inl ParserError else conv line)
            (drop 1 lines))"

text \<open>
  \<open>pd.to_numeric(..., errors="coerce")\<close> on a text: a text that is not a number gives NaN
  instead of raising, and the text \<open>nan\<close> is NaN itself.
\<close>

definition to_numeric_coerce :: "parsers \<Rightarrow> string \<Rightarrow> real option" where
  "to_numeric_coerce P s = (if s = ''nan'' then None else float_of_text P s)"

subsection \<open>\<open>read_contract\<close>\<close>

record contract_row =
  c_contractid :: "string option"
  c_planid :: "real option"
  c_org_type :: "string option"
  c_plan_type :: "string option"
  c_partd :: "string option"
  c_snp :: "string option"
  c_eghp :: "string option"
  c_org_name :: "string option"
  c_org_marketing_name :: "string option"
  c_plan_name :: "string option"
  c_parent_org :: "string option"
  c_contract_date :: "string option"

text \<open>\<open>read_contract\<close> passes no \<open>na_values\<close>.\<close>

definition contract_na :: "string list" where
  "contract_na = []"

definition contract_of_line :: "parsers \<Rightarrow> string list \<Rightarrow> error + contract_row" where
  "contract_of_line P line =
     bind_err (as_float P contract_na (field line 1)) (\<lambda>planid.
       Inr \<lparr>c_contractid = as_str contract_na (field line 0),
            c_planid = planid,
            c_org_type = as_str contract_na (field line 2),
            c_plan_type = as_str contract_na (field line 3),
            c_partd = as_str contract_na (field line 4),
            c_snp = as_str contract_na (field line 5),
            c_eghp = as_str contract_na (field line 6),
            c_org_name = as_str contract_na (field line 7),
            c_org_marketing_name = as_str contract_na (field line 8),
            c_plan_name = as_str contract_na (field line 9),
            c_parent_org = as_str contract_na (field line 10),
            c_contract_date = as_str contract_na (field line 11)\<rparr>)"

definition read_contract :: "parsers \<Rightarrow> files \<Rightarrow> string \<Rightarrow> error + contract_row list" where
  "read_contract P fs path = read_csv fs path 12 (contract_of_line P)"

text \<open>\<open>isna()\<close> of a row: for each column, in order, whether its value is missing.\<close>

definition contract_isna :: "contract_row \<Rightarrow> bool list" where
  "contract_isna r =
     [c_contractid r = None, c_planid r = None, c_org_type r = None, c_plan_type r = None,
      c_partd r = None, c_snp r = None, c_eghp r = None, c_org_name r = None,
      c_org_marketing_name r = None, c_plan_name r = None, c_parent_org r = None,
      c_contract_date r = None]"

subsection \<open>\<open>read_enroll\<close>\<close>

record enroll_row =
  e_contractid :: "string option"
  e_planid :: "real option"
  e_ssa :: "real option"
  e_fips :: "real option"
  e_state :: "string option"
  e_county :: "string option"
  e_enrollment :: "real option"

definition enroll_na :: "string list" where
  "enroll_na = [''*'']"

definition enroll_of_line :: "parsers \<Rightarrow> string list \<Rightarrow> error + enroll_row" where
  "enroll_of_line P line =
     bind_err (as_float P enroll_na (field line 1)) (\<lambda>planid.
     bind_err (as_float P enroll_na (field line 2)) (\<lambda>ssa.
     bind_err (as_float P enroll_na (field line 3)) (\<lambda>fips.
     bind_err (as_float P enroll_na (field line 6)) (\<lambda>enrollment.
       Inr \<lparr>e_contractid = as_str enroll_na (field line 0),
            e_planid = planid,
            e_ssa = ssa,
            e_fips = fips,
            e_state = as_str enroll_na (field line 4),
            e_county = as_str enroll_na (field line 5),
            e_enrollment = enrollment\<rparr>))))"

definition read_enroll :: "parsers \<Rightarrow> files \<Rightarrow> string \<Rightarrow> error + enroll_row list" where
  "read_enroll P fs path = read_csv fs path 7 (enroll_of_line P)"

definition enroll_isna :: "enroll_row \<Rightarrow> bool list" where
  "enroll_isna r =
     [e_contractid r = None, e_planid r = None, e_ssa r = None, e_fips r = None,
      e_state r = None, e_county r = None, e_enrollment r = None]"

subsection \<open>\<open>load_month\<close>\<close>

text \<open>
  The paths are the directory, a separator and the file name.  A month text with a
  slash in it would make \<open>pathlib\<close> split the name into components and drop empty ones;
  that is not represented.
\<close>

definition MA_DATA_DIR :: string where
  "MA_DATA_DIR = ''/home/gdanzil/econ470/a0/work/ma-data''"

definition enrollment_dir :: string where
  "enrollment_dir = MA_DATA_DIR @ ''/ma/enrollment/Extracted Data''"

definition c_path :: "string \<Rightarrow> int \<Rightarrow> string" where
  "c_path m y = enrollment_dir @ ''/CPSC_Contract_Info_'' @ str_int y @ ''_'' @ m @ ''.csv''"

definition e_path :: "string \<Rightarrow> int \<Rightarrow> string" where
  "e_path m y = enrollment_dir @ ''/CPSC_Enrollment_Info_'' @ str_int y @ ''_'' @ m @ ''.csv''"

text \<open>
  A row of the merged table: the twelve contract columns, then the enrollment columns
  that are not join keys.
\<close>

record panel_row =
  p_contract :: contract_row
  p_ssa :: "real option"
  p_fips :: "real option"
  p_state :: "string option"
  p_county :: "string option"
  p_enrollment :: "real option"

text \<open>A table with the \<open>month\<close> and \<open>year\<close> columns the loaders append.\<close>

record 'r monthly =
  data :: 'r
  month :: int
  year :: int

definition contract_key :: "contract_row \<Rightarrow> string option \<times> real option" where
  "contract_key r = (c_contractid r, c_planid r)"

definition enroll_key :: "enroll_row \<Rightarrow> string option \<times> real option" where
  "enroll_key r = (e_contractid r, e_planid r)"

definition join_enroll :: "contract_row \<Rightarrow> enroll_row option \<Rightarrow> panel_row" where
  "join_enroll c eo =
     (case eo of
        None \<Rightarrow>
          \<lparr>p_contract = c, p_ssa = None, p_fips = None, p_state = None, p_county = None,
           p_enrollment = None\<rparr>
      | Some e \<Rightarrow>
          \<lparr>p_contract = c, p_ssa = e_ssa e, p_fips = e_fips e, p_state = e_state e,
           p_county = e_county e, p_enrollment = e_enrollment e\<rparr>)"

definition stamp :: "string \<Rightarrow> int \<Rightarrow> 'r list \<Rightarrow> error + 'r monthly list" where
  "stamp m y df =
     (case py_int m of
        None \<Rightarrow> Inl (ValueError m)
      | Some mi \<Rightarrow> Inr (map (\<lambda>r. \<lparr>data = r, month = mi, year = y\<rparr>) df))"

definition load_month ::
  "parsers \<Rightarrow> files \<Rightarrow> string \<Rightarrow> int \<Rightarrow> error + panel_row monthly list" where
  "load_month P fs m y =
     (if fs (c_path m y) = None then
        Inl (FileNotFoundError (''Missing contract file: '' @ c_path m y))
      else if fs (e_path m y) = None then
        Inl (FileNotFoundError (''Missing enrollment file: '' @ e_path m y))
      else
        bind_err (read_contract P fs (c_path m y)) (\<lambda>contracts.
        bind_err (read_enroll P fs (e_path m y)) (\<lambda>enroll_info.
          stamp m y
            (merge_left contract_key enroll_key join_enroll
               (drop_duplicates contract_key contracts) enroll_info))))"

subsection \<open>\<open>read_service_area\<close> and \<open>load_month_sa\<close>\<close>

text \<open>
  The keys of the dictionary given to \<open>Series.map\<close> are texts and booleans.  A dictionary
  finds a key by Python's equality, under which \<open>True\<close> and \<open>False\<close> equal the numbers 1
  and 0.  A value the dictionary does not have, and a missing value, map to a missing
  value.
\<close>

datatype pyval = Str string | Bool bool | Num real

fun py_eq :: "pyval \<Rightarrow> pyval \<Rightarrow> bool" where
  "py_eq (Str a) (Str b) = (a = b)"
| "py_eq (Bool a) (Bool b) = (a = b)"
| "py_eq (Num a) (Num b) = (a = b)"
| "py_eq (Bool a) (Num b) = (b = (if a then 1 else 0))"
| "py_eq (Num a) (Bool b) = (a = (if b then 1 else 0))"
| "py_eq (Str a) (Bool b) = False"
| "py_eq (Str a) (Num b) = False"
| "py_eq (Bool a) (Str b) = False"
| "py_eq (Num a) (Str b) = False"

fun dict_get :: "(pyval \<times> 'v) list \<Rightarrow> pyval \<Rightarrow> 'v option" where
  "dict_get [] k = None"
| "dict_get ((k', v) # d) k = (if py_eq k' k then Some v else dict_get d k)"

definition series_map :: "(pyval \<times> 'v) list \<Rightarrow> pyval option \<Rightarrow> 'v option" where
  "series_map d x = (case x of None \<Rightarrow> None | Some k \<Rightarrow> dict_get d k)"

definition partial_dict :: "(pyval \<times> bool) list" where
  "partial_dict =
     [(Str ''TRUE'', True), (Str ''FALSE'', False), (Bool True, True), (Bool False, False)]"

record sa_row =
  sa_contractid :: "string option"
  sa_org_name :: "string option"
  sa_org_type :: "string option"
  sa_plan_type :: "string option"
  sa_partial :: "bool option"
  sa_eghp :: "string option"
  sa_ssa :: "real option"
  sa_fips :: "real option"
  sa_county :: "string option"
  sa_state :: "string option"
  sa_notes :: "string option"

definition sa_na :: "string list" where
  "sa_na = [''*'']"

text \<open>
  The \<open>partial\<close> column is read as text and then mapped through the dictionary.  The map
  cannot raise, so it is applied here line by line.
\<close>

definition partial_of_text :: "string \<Rightarrow> bool option" where
  "partial_of_text s = series_map partial_dict (map_option Str (as_str sa_na s))"

definition sa_of_line :: "parsers \<Rightarrow> string list \<Rightarrow> error + sa_row" where
  "sa_of_line P line =
     bind_err (as_float P sa_na (field line 6)) (\<lambda>ssa.
     bind_err (as_float P sa_na (field line 7)) (\<lambda>fips.
       Inr \<lparr>sa_contractid = as_str sa_na (field line 0),
            sa_org_name = as_str sa_na (field line 1),
            sa_org_type = as_str sa_na (field line 2),
            sa_plan_type = as_str sa_na (field line 3),
            sa_partial = partial_of_text (field line 4),
            sa_eghp = as_str sa_na (field line 5),
            sa_ssa = ssa,
            sa_fips = fips,
            sa_county = as_str sa_na (field line 8),
            sa_state = as_str sa_na (field line 9),
            sa_notes = as_str sa_na (field line 10)\<rparr>))"

definition read_service_area :: "parsers \<Rightarrow> files \<Rightarrow> string \<Rightarrow> error + sa_row list" where
  "read_service_area P fs path = read_csv fs path 11 (sa_of_line P)"

definition sa_isna :: "sa_row \<Rightarrow> bool list" where
  "sa_isna r =
     [sa_contractid r = None, sa_org_name r = None, sa_org_type r = None,
      sa_plan_type r = None, sa_partial r = None, sa_eghp r = None, sa_ssa r = None,
      sa_fips r = None, sa_county r = None, sa_state r = None, sa_notes r = None]"

definition sa_path :: "string \<Rightarrow> int \<Rightarrow> string" where
  "sa_path m y =
     ''../../ma-data/ma/service-area/Extracted Data/MA_Cnty_SA_'' @ str_int y @ ''_'' @ m @ ''.csv''"

definition load_month_sa ::
  "parsers \<Rightarrow> files \<Rightarrow> string \<Rightarrow> int \<Rightarrow> error + sa_row monthly list" where
  "load_month_sa P fs m y = bind_err (read_service_area P fs (sa_path m y)) (stamp m y)"

subsection \<open>\<open>read_penetration\<close> and \<open>load_month_pen\<close>\<close>

record pen_row =
  pen_state :: "string option"
  pen_county :: "string option"
  pen_fips_state :: "int option"
  pen_fips_cnty :: "int option"
  pen_fips :: "real option"
  pen_ssa_state :: "int option"
  pen_ssa_cnty :: "int option"
  pen_ssa :: "real option"
  pen_eligibles :: "real option"
  pen_enrolled :: "real option"
  pen_penetration :: "real option"

definition pen_na :: "string list" where
  "pen_na = [[], ''NA'', ''*'', ''-'', ''--'']"

text \<open>\<open>astype(str)\<close> on a column of texts: a missing value becomes the text \<open>nan\<close>.\<close>

definition astype_str :: "string option \<Rightarrow> string" where
  "astype_str x = (case x of None \<Rightarrow> ''nan'' | Some s \<Rightarrow> s)"

text \<open>\<open>str.replace(c, "", regex=False)\<close> for a pattern of one character \<open>c\<close>.\<close>

definition str_remove :: "char \<Rightarrow> string \<Rightarrow> string" where
  "str_remove c s = filter (\<lambda>x. x \<noteq> c) s"

text \<open>
  The columns \<open>eligibles\<close>, \<open>enrolled\<close> and \<open>penetration\<close> are read as text and parsed in
  the loop after \<open>read_csv\<close>.  The parse cannot raise, so it is applied here line by line.
\<close>

definition pen_numeric :: "parsers \<Rightarrow> string \<Rightarrow> real option" where
  "pen_numeric P s =
     to_numeric_coerce P
       (str_remove (CHR ''%'') (str_remove (CHR '','') (astype_str (as_str pen_na s))))"

definition pen_of_line :: "parsers \<Rightarrow> string list \<Rightarrow> error + pen_row" where
  "pen_of_line P line =
     bind_err (as_Int64 P pen_na (field line 2)) (\<lambda>fips_state.
     bind_err (as_Int64 P pen_na (field line 3)) (\<lambda>fips_cnty.
     bind_err (as_float P pen_na (field line 4)) (\<lambda>fips.
     bind_err (as_Int64 P pen_na (field line 5)) (\<lambda>ssa_state.
     bind_err (as_Int64 P pen_na (field line 6)) (\<lambda>ssa_cnty.
     bind_err (as_float P pen_na (field line 7)) (\<lambda>ssa.
       Inr \<lparr>pen_state = as_str pen_na (field line 0),
            pen_county = as_str pen_na (field line 1),
            pen_fips_state = fips_state,
            pen_fips_cnty = fips_cnty,
            pen_fips = fips,
            pen_ssa_state = ssa_state,
            pen_ssa_cnty = ssa_cnty,
            pen_ssa = ssa,
            pen_eligibles = pen_numeric P (field line 8),
            pen_enrolled = pen_numeric P (field line 9),
            pen_penetration = pen_numeric P (field line 10)\<rparr>))))))"

definition read_penetration :: "parsers \<Rightarrow> files \<Rightarrow> string \<Rightarrow> error + pen_row list" where
  "read_penetration P fs path = read_csv fs path 11 (pen_of_line P)"

definition pen_isna :: "pen_row \<Rightarrow> bool list" where
  "pen_isna r =
     [pen_state r = None, pen_county r = None, pen_fips_state r = None,
      pen_fips_cnty r = None, pen_fips r = None, pen_ssa_state r = None,
      pen_ssa_cnty r = None, pen_ssa r = None, pen_eligibles r = None,
      pen_enrolled r = None, pen_penetration r = None]"

definition pen_path :: "string \<Rightarrow> int \<Rightarrow> string" where
  "pen_path m y =
     ''../../ma-data/ma/penetration/Extracted Data/State_County_Penetration_MA_'' @ str_int y
       @ ''_'' @ m @ ''.csv''"

definition load_month_pen ::
  "parsers \<Rightarrow> files \<Rightarrow> string \<Rightarrow> int \<Rightarrow> error + pen_row monthly list" where
  "load_month_pen P fs m y = bind_err (read_penetration P fs (pen_path m y)) (stamp m y)"

section \<open>\<open>mapd_clean_merge\<close>\<close>

subsection \<open>The premium tables\<close>

text \<open>
  The columns the function selects from its two arguments; the other columns of the
  arguments are not represented.  The \<open>planid\<close> column of the MA-only table is numeric
  as it comes, since the function merges on it without converting it.  The \<open>planid\<close>
  column of the MA-PD table holds texts or numbers until \<open>pd.to_numeric\<close> has run, so
  its type is a parameter of the row.
\<close>

record ma_row =
  ma_contractid :: "string option"
  ma_planid :: "real option"
  ma_state :: "string option"
  ma_county :: "string option"
  ma_premium :: "real option"

record 'p mapd_row =
  pd_contractid :: "string option"
  pd_planid :: 'p
  pd_state :: "string option"
  pd_county :: "string option"
  premium_partc :: "real option"
  premium_partd_basic :: "real option"
  premium_partd_supp :: "real option"
  premium_partd_total :: "real option"
  partd_deductible :: "real option"

record premium_row =
  pp_contractid :: "string option"
  pp_planid :: "real option"
  pp_state :: "string option"
  pp_county :: "string option"
  pp_premium :: "real option"
  pp_premium_partc :: "real option"
  pp_premium_partd_basic :: "real option"
  pp_premium_partd_supp :: "real option"
  pp_premium_partd_total :: "real option"
  pp_partd_deductible :: "real option"

record plan_premium =
  pp_row :: premium_row
  pp_year :: int

type_synonym plan_key = "string option \<times> real option \<times> string option \<times> string option"

definition ma_key :: "ma_row \<Rightarrow> plan_key" where
  "ma_key r = (ma_contractid r, ma_planid r, ma_state r, ma_county r)"

definition mapd_key :: "(real option) mapd_row \<Rightarrow> plan_key" where
  "mapd_key r = (pd_contractid r, pd_planid r, pd_state r, pd_county r)"

definition pp_key :: "premium_row \<Rightarrow> plan_key" where
  "pp_key r = (pp_contractid r, pp_planid r, pp_state r, pp_county r)"

fun key_isnull :: "plan_key \<Rightarrow> bool" where
  "key_isnull (c, p, s, k) = (c = None \<or> p = None \<or> s = None \<or> k = None)"

fun key_less :: "plan_key \<Rightarrow> plan_key \<Rightarrow> bool" where
  "key_less (c1, p1, s1, k1) (c2, p2, s2, k2) =
     (na_last_less c1 c2 \<or> (c1 = c2 \<and>
       (na_last_less p1 p2 \<or> (p1 = p2 \<and>
         (na_last_less s1 s2 \<or> (s1 = s2 \<and> na_last_less k1 k2))))))"

subsection \<open>The steps on tables\<close>

definition ma_sort :: "ma_row list \<Rightarrow> ma_row list" where
  "ma_sort t = sort_values (\<lambda>a b. key_less (ma_key a) (ma_key b)) t"

definition ma_ffill :: "ma_row list \<Rightarrow> ma_row list" where
  "ma_ffill t =
     map2 (\<lambda>r v. r\<lparr>ma_premium := v\<rparr>) t
       (groupby_ffill ma_key key_isnull ma_premium (\<lambda>k. None) t)"

definition ma_dedup :: "ma_row list \<Rightarrow> ma_row list" where
  "ma_dedup t = drop_duplicates ma_key t"

text \<open>\<open>pd.to_numeric(mapd_data["planid"], errors="coerce")\<close>, value by value.\<close>

definition planid_to_numeric :: "parsers \<Rightarrow> pyval option \<Rightarrow> real option" where
  "planid_to_numeric P x =
     (case x of
        None \<Rightarrow> None
      | Some (Str s) \<Rightarrow> to_numeric_coerce P s
      | Some (Bool b) \<Rightarrow> Some (if b then 1 else 0)
      | Some (Num n) \<Rightarrow> Some n)"

definition mapd_numeric ::
  "parsers \<Rightarrow> (pyval option) mapd_row list \<Rightarrow> (real option) mapd_row list" where
  "mapd_numeric P t =
     map (\<lambda>r. \<lparr>pd_contractid = pd_contractid r,
               pd_planid = planid_to_numeric P (pd_planid r),
               pd_state = pd_state r,
               pd_county = pd_county r,
               premium_partc = premium_partc r,
               premium_partd_basic = premium_partd_basic r,
               premium_partd_supp = premium_partd_supp r,
               premium_partd_total = premium_partd_total r,
               partd_deductible = partd_deductible r\<rparr>) t"

definition mapd_sort :: "(real option) mapd_row list \<Rightarrow> (real option) mapd_row list" where
  "mapd_sort t = sort_values (\<lambda>a b. key_less (mapd_key a) (mapd_key b)) t"

text \<open>The five \<open>fill_cols\<close> are filled from the table as it is, each on its own.\<close>

definition set_fill_cols ::
  "(real option) mapd_row \<Rightarrow>
   real option \<times> real option \<times> real option \<times> real option \<times> real option \<Rightarrow>
   (real option) mapd_row" where
  "set_fill_cols r v =
     (case v of (a, b, c, d, e) \<Rightarrow>
        r\<lparr>premium_partc := a, premium_partd_basic := b, premium_partd_supp := c,
          premium_partd_total := d, partd_deductible := e\<rparr>)"

definition mapd_ffill :: "(real option) mapd_row list \<Rightarrow> (real option) mapd_row list" where
  "mapd_ffill t =
     (let fill = (\<lambda>col. groupby_ffill mapd_key key_isnull col (\<lambda>k. None) t)
      in map2 set_fill_cols t
           (zip (fill premium_partc) (zip (fill premium_partd_basic)
             (zip (fill premium_partd_supp) (zip (fill premium_partd_total)
               (fill partd_deductible))))))"

definition mapd_dedup :: "(real option) mapd_row list \<Rightarrow> (real option) mapd_row list" where
  "mapd_dedup t = drop_duplicates mapd_key t"

text \<open>
  A row of the outer merge: the key columns come from the side that has the row, and the
  columns of a side without a matching row are missing.
\<close>

fun join_premiums :: "ma_row option \<Rightarrow> (real option) mapd_row option \<Rightarrow> premium_row" where
  "join_premiums (Some a) bo =
     \<lparr>pp_contractid = ma_contractid a, pp_planid = ma_planid a, pp_state = ma_state a,
      pp_county = ma_county a, pp_premium = ma_premium a,
      pp_premium_partc = (case bo of None \<Rightarrow> None | Some b \<Rightarrow> premium_partc b),
      pp_premium_partd_basic = (case bo of None \<Rightarrow> None | Some b \<Rightarrow> premium_partd_basic b),
      pp_premium_partd_supp = (case bo of None \<Rightarrow> None | Some b \<Rightarrow> premium_partd_supp b),
      pp_premium_partd_total = (case bo of None \<Rightarrow> None | Some b \<Rightarrow> premium_partd_total b),
      pp_partd_deductible = (case bo of None \<Rightarrow> None | Some b \<Rightarrow> partd_deductible b)\<rparr>"
| "join_premiums None (Some b) =
     \<lparr>pp_contractid = pd_contractid b, pp_planid = pd_planid b, pp_state = pd_state b,
      pp_county = pd_county b, pp_premium = None,
      pp_premium_partc = premium_partc b,
      pp_premium_partd_basic = premium_partd_basic b,
      pp_premium_partd_supp = premium_partd_supp b,
      pp_premium_partd_total = premium_partd_total b,
      pp_partd_deductible = partd_deductible b\<rparr>"
| "join_premiums None None =
     \<lparr>pp_contractid = None, pp_planid = None, pp_state = None, pp_county = None,
      pp_premium = None, pp_premium_partc = None, pp_premium_partd_basic = None,
      pp_premium_partd_supp = None, pp_premium_partd_total = None,
      pp_partd_deductible = None\<rparr>"

definition merge_premiums ::
  "ma_row list \<Rightarrow> (real option) mapd_row list \<Rightarrow> premium_row list" where
  "merge_premiums a b = merge_outer ma_key mapd_key join_premiums a b"

definition set_year :: "int \<Rightarrow> premium_row list \<Rightarrow> plan_premium list" where
  "set_year y t = map (\<lambda>r. \<lparr>pp_row = r, pp_year = y\<rparr>) t"

subsection \<open>Data frames as objects\<close>

text \<open>
  The arguments of \<open>mapd_clean_merge\<close> are references to data frames of the caller.  The
  store holds the data frames; a reference is an index into it.  An expression that
  builds a data frame allocates a new one; an assignment to a column changes the data
  frame the variable refers to, in place.  Selecting columns a data frame does not have
  raises \<open>KeyError\<close>.
\<close>

datatype frame =
    Ma "ma_row list"
  | MapdRaw "(pyval option) mapd_row list"
  | Mapd "(real option) mapd_row list"
  | Merged "premium_row list"
  | Premiums "plan_premium list"

type_synonym store = "frame list"

definition deref :: "store \<Rightarrow> nat \<Rightarrow> frame option" where
  "deref h a = (if a < length h then Some (h ! a) else None)"

definition alloc :: "store \<Rightarrow> frame \<Rightarrow> nat \<times> store" where
  "alloc h f = (length h, h @ [f])"

definition new_from :: "(frame \<Rightarrow> error + frame) \<Rightarrow> store \<Rightarrow> nat \<Rightarrow> error + nat \<times> store" where
  "new_from f h a =
     (case deref h a of
        None \<Rightarrow> Inl KeyError
      | Some fr \<Rightarrow> bind_err (f fr) (\<lambda>fr'. Inr (alloc h fr')))"

definition set_in :: "(frame \<Rightarrow> error + frame) \<Rightarrow> store \<Rightarrow> nat \<Rightarrow> error + store" where
  "set_in f h a =
     (case deref h a of
        None \<Rightarrow> Inl KeyError
      | Some fr \<Rightarrow> bind_err (f fr) (\<lambda>fr'. Inr (h[a := fr'])))"

fun on_ma :: "(ma_row list \<Rightarrow> ma_row list) \<Rightarrow> frame \<Rightarrow> error + frame" where
  "on_ma f (Ma t) = Inr (Ma (f t))"
| "on_ma f fr = Inl KeyError"

fun on_mapd ::
  "((real option) mapd_row list \<Rightarrow> (real option) mapd_row list) \<Rightarrow> frame \<Rightarrow> error + frame" where
  "on_mapd f (Mapd t) = Inr (Mapd (f t))"
| "on_mapd f fr = Inl KeyError"

fun on_mapd_raw ::
  "((pyval option) mapd_row list \<Rightarrow> (pyval option) mapd_row list) \<Rightarrow> frame \<Rightarrow> error + frame" where
  "on_mapd_raw f (MapdRaw t) = Inr (MapdRaw (f t))"
| "on_mapd_raw f fr = Inl KeyError"

fun to_numeric_planid :: "parsers \<Rightarrow> frame \<Rightarrow> error + frame" where
  "to_numeric_planid P (MapdRaw t) = Inr (Mapd (mapd_numeric P t))"
| "to_numeric_planid P fr = Inl KeyError"

fun stamp_year :: "int \<Rightarrow> frame \<Rightarrow> error + frame" where
  "stamp_year y (Merged t) = Inr (Premiums (set_year y t))"
| "stamp_year y fr = Inl KeyError"

definition merge_frames :: "store \<Rightarrow> nat \<Rightarrow> nat \<Rightarrow> error + nat \<times> store" where
  "merge_frames h a b =
     (case (deref h a, deref h b) of
        (Some (Ma ta), Some (Mapd tb)) \<Rightarrow> Inr (alloc h (Merged (merge_premiums ta tb)))
      | _ \<Rightarrow> Inl KeyError)"

subsection \<open>The function\<close>

text \<open>
  Each line of the source is one step; the local variables \<open>ma_data\<close> and \<open>mapd_data\<close>
  are rebound to the new data frame after each expression that builds one.  The two
  blocks the source marks as tidying the MA-only and the MA-PD data return the reference
  their variable holds at the end and the store.
\<close>

definition tidy_ma_only :: "store \<Rightarrow> nat \<Rightarrow> error + nat \<times> store" where
  "tidy_ma_only h0 ma_data0 =
     bind_err (new_from (on_ma id) h0 ma_data0) (\<lambda>(ma_sel, h1).
     bind_err (new_from (on_ma id) h1 ma_sel) (\<lambda>(ma_data1, h2).
     bind_err (new_from (on_ma ma_sort) h2 ma_data1) (\<lambda>(ma_data2, h3).
     bind_err (set_in (on_ma ma_ffill) h3 ma_data2) (\<lambda>h4.
     new_from (on_ma ma_dedup) h4 ma_data2))))"

definition tidy_ma_pd :: "parsers \<Rightarrow> store \<Rightarrow> nat \<Rightarrow> error + nat \<times> store" where
  "tidy_ma_pd P h0 mapd_data0 =
     bind_err (new_from (on_mapd_raw id) h0 mapd_data0) (\<lambda>(mapd_sel, h1).
     bind_err (new_from (on_mapd_raw id) h1 mapd_sel) (\<lambda>(mapd_data1, h2).
     bind_err (set_in (to_numeric_planid P) h2 mapd_data1) (\<lambda>h3.
     bind_err (new_from (on_mapd mapd_sort) h3 mapd_data1) (\<lambda>(mapd_data2, h4).
     bind_err (set_in (on_mapd mapd_ffill) h4 mapd_data2) (\<lambda>h5.
     new_from (on_mapd mapd_dedup) h5 mapd_data2)))))"

text \<open>The result is the reference to \<open>plan_premiums\<close> and the store after the call.\<close>

definition mapd_clean_merge ::
  "parsers \<Rightarrow> store \<Rightarrow> nat \<Rightarrow> nat \<Rightarrow> int \<Rightarrow> error + nat \<times> store" where
  "mapd_clean_merge P h0 ma_data0 mapd_data0 y =
     bind_err (tidy_ma_only h0 ma_data0) (\<lambda>(ma_data, h1).
     bind_err (tidy_ma_pd P h1 mapd_data0) (\<lambda>(mapd_data, h2).
     bind_err (merge_frames h2 ma_data mapd_data) (\<lambda>(plan_premiums, h3).
     bind_err (set_in (stamp_year y) h3 plan_premiums) (\<lambda>h4.
       Inr (plan_premiums, h4)))))"

text \<open>The tables the two tidy blocks produce, and the table of the result.\<close>

definition ma_tidy :: "ma_row list \<Rightarrow> ma_row list" where
  "ma_tidy t = ma_dedup (ma_ffill (ma_sort t))"

definition mapd_tidy :: "parsers \<Rightarrow> (pyval option) mapd_row list \<Rightarrow> (real option) mapd_row list" where
  "mapd_tidy P t = mapd_dedup (mapd_ffill (mapd_sort (mapd_numeric P t)))"

text \<open>
  The data frames a call allocates, in the order of their references: the selection and
  the copy of the MA-only table, its sorted copy after the fill, the deduplicated table,
  the same four for the MA-PD table (the copy with its plan identifier made numeric),
  and the merged table with its year.
\<close>

definition frames_after ::
  "parsers \<Rightarrow> ma_row list \<Rightarrow> (pyval option) mapd_row list \<Rightarrow> int \<Rightarrow> frame list" where
  "frames_after P t1 t2 y =
     [Ma t1, Ma t1, Ma (ma_ffill (ma_sort t1)), Ma (ma_tidy t1),
      MapdRaw t2, Mapd (mapd_numeric P t2),
      Mapd (mapd_ffill (mapd_sort (mapd_numeric P t2))), Mapd (mapd_tidy P t2),
      Premiums (set_year y (merge_premiums (ma_tidy t1) (mapd_tidy P t2)))]"

text \<open>The data frame a call returns, when it returns.\<close>

definition result_frame :: "error + nat \<times> store \<Rightarrow> frame option" where
  "result_frame res = (case res of Inl e \<Rightarrow> None | Inr (r, h) \<Rightarrow> deref h r)"

section \<open>Example inputs\<close>

text \<open>
  A stand-in for the library's conversions that reads plain strings of decimal digits; it
  is used only to run the functions on the examples.
\<close>

definition digits_only :: parsers where
  "digits_only =
     \<lparr>float_of_text = (\<lambda>s. map_option real (py_nat s)), int_of_text = py_int\<rparr>"

text \<open>
  A contract file with two lines for plan 1 of contract H1234 and one line for plan 2 of
  contract H5678, and an enrollment file with two counties for the first plan and none
  for the second.
\<close>

definition ex_contracts :: csv where
  "ex_contracts =
     [[''Contract ID'', ''Plan ID''],
      [''H1234'', ''1'', ''Local CCP'', ''HMO'', ''Yes'', ''No'', ''No'', ''Acme'',
       ''Acme Health'', ''Gold'', ''Acme Inc'', ''01/01/2010''],
      [''H1234'', ''1'', ''Local CCP'', ''HMO'', ''Yes'', ''No'', ''No'', ''Acme'',
       ''Acme Health'', ''Gold Plus'', ''Acme Inc'', ''01/01/2010''],
      [''H5678'', ''2'', ''*'', ''PPO'', ''No'', ''No'', ''No'', ''Zenith'',
       ''Zenith Care'', ''Basic'', ''-'', ''--'']]"

definition ex_enrollment :: csv where
  "ex_enrollment =
     [[''Contract Number'', ''Plan ID''],
      [''H1234'', ''1'', ''1000'', ''1001'', ''AL'', ''Autauga'', ''25''],
      [''H1234'', ''1'', ''1010'', ''1003'', ''AL'', ''Baldwin'', ''*'']]"

definition ex_fs :: files where
  "ex_fs p =
     (if p = c_path ''01'' 2015 then Some ex_contracts
      else if p = e_path ''01'' 2015 then Some ex_enrollment
      else None)"

definition ex_fs_contract_only :: files where
  "ex_fs_contract_only p = (if p = c_path ''01'' 2015 then Some ex_contracts else None)"

definition ex_contract_rows :: "contract_row list" where
  "ex_contract_rows =
     [\<lparr>c_contractid = Some ''H1234'', c_planid = Some 1,
       c_org_type = Some ''Local CCP'', c_plan_type = Some ''HMO'',
       c_partd = Some ''Yes'', c_snp = Some ''No'', c_eghp = Some ''No'',
       c_org_name = Some ''Acme'', c_org_marketing_name = Some ''Acme Health'',
       c_plan_name = Some ''Gold'', c_parent_org = Some ''Acme Inc'',
       c_contract_date = Some ''01/01/2010''\<rparr>,
      \<lparr>c_contractid = Some ''H1234'', c_planid = Some 1,
       c_org_type = Some ''Local CCP'', c_plan_type = Some ''HMO'',
       c_partd = Some ''Yes'', c_snp = Some ''No'', c_eghp = Some ''No'',
       c_org_name = Some ''Acme'', c_org_marketing_name = Some ''Acme Health'',
       c_plan_name = Some ''Gold Plus'', c_parent_org = Some ''Acme Inc'',
       c_contract_date = Some ''01/01/2010''\<rparr>,
      \<lparr>c_contractid = Some ''H5678'', c_planid = Some 2,
       c_org_type = Some ''*'', c_plan_type = Some ''PPO'',
       c_partd = Some ''No'', c_snp = Some ''No'', c_eghp = Some ''No'',
       c_org_name = Some ''Zenith'', c_org_marketing_name = Some ''Zenith Care'',
       c_plan_name = Some ''Basic'', c_parent_org = Some ''-'',
       c_contract_date = Some ''--''\<rparr>]"

definition ex_enroll_rows :: "enroll_row list" where
  "ex_enroll_rows =
     [\<lparr>e_contractid = Some ''H1234'', e_planid = Some 1, e_ssa = Some 1000,
       e_fips = Some 1001, e_state = Some ''AL'', e_county = Some ''Autauga'',
       e_enrollment = Some 25\<rparr>,
      \<lparr>e_contractid = Some ''H1234'', e_planid = Some 1, e_ssa = Some 1010,
       e_fips = Some 1003, e_state = Some ''AL'', e_county = Some ''Baldwin'',
       e_enrollment = None\<rparr>]"

definition ex_panel :: "panel_row monthly list" where
  "ex_panel =
     map (\<lambda>r. \<lparr>data = r, month = 1, year = 2015\<rparr>)
       [join_enroll (ex_contract_rows ! 0) (Some (ex_enroll_rows ! 0)),
        join_enroll (ex_contract_rows ! 0) (Some (ex_enroll_rows ! 1)),
        join_enroll (ex_contract_rows ! 2) None]"

text \<open>The same contract file with an enrollment file of one line.\<close>

definition ex_fs_one :: files where
  "ex_fs_one p =
     (if p = c_path ''01'' 2015 then Some ex_contracts
      else if p = e_path ''01'' 2015 then Some (take 2 ex_enrollment)
      else None)"

definition ex_panel_one :: "panel_row monthly list" where
  "ex_panel_one =
     map (\<lambda>r. \<lparr>data = r, month = 1, year = 2015\<rparr>)
       [join_enroll (ex_contract_rows ! 0) (Some (ex_enroll_rows ! 0)),
        join_enroll (ex_contract_rows ! 2) None]"

text \<open>
  A service-area file, a penetration file and a contract file of one short line, with
  missing-value texts in text and number columns, and the files under plain names.
\<close>

definition ex_sa_file :: csv where
  "ex_sa_file =
     [[''Contract ID'', ''Organization Name''],
      [''H1234'', ''Acme'', ''Local CCP'', ''HMO'', ''TRUE'', ''No'', ''1000'', ''1001'',
       ''Autauga'', ''AL'', ''none''],
      [''H1234'', ''Acme'', ''Local CCP'', ''HMO'', ''FALSE'', ''No'', ''*'', ''NA'',
       ''Baldwin'', ''AL'', []],
      [''H5678'', ''Zenith'', ''Local CCP'', ''PPO'', ''true'', ''*'', ''1010'', ''1003'',
       ''Mobile'', ''AL'']]"

definition ex_sa_rows :: "sa_row list" where
  "ex_sa_rows =
     [\<lparr>sa_contractid = Some ''H1234'', sa_org_name = Some ''Acme'',
       sa_org_type = Some ''Local CCP'', sa_plan_type = Some ''HMO'',
       sa_partial = Some True, sa_eghp = Some ''No'', sa_ssa = Some 1000,
       sa_fips = Some 1001, sa_county = Some ''Autauga'', sa_state = Some ''AL'',
       sa_notes = Some ''none''\<rparr>,
      \<lparr>sa_contractid = Some ''H1234'', sa_org_name = Some ''Acme'',
       sa_org_type = Some ''Local CCP'', sa_plan_type = Some ''HMO'',
       sa_partial = Some False, sa_eghp = Some ''No'', sa_ssa = None,
       sa_fips = None, sa_county = Some ''Baldwin'', sa_state = Some ''AL'',
       sa_notes = None\<rparr>,
      \<lparr>sa_contractid = Some ''H5678'', sa_org_name = Some ''Zenith'',
       sa_org_type = Some ''Local CCP'', sa_plan_type = Some ''PPO'',
       sa_partial = None, sa_eghp = None, sa_ssa = Some 1010,
       sa_fips = Some 1003, sa_county = Some ''Mobile'', sa_state = Some ''AL'',
       sa_notes = None\<rparr>]"

definition ex_pen_file :: csv where
  "ex_pen_file =
     [[''State Name'', ''County Name''],
      [''Alabama'', ''Autauga'', ''1'', ''1'', ''1001'', ''1'', ''0'', ''1000'', ''1,234'',
       ''25'', ''2%''],
      [''Alabama'', ''--'', ''NA'', ''*'', ''-'', ''--'', [], ''1010'', ''12x%'', ''n/a'',
       ''*'']]"

definition ex_pen_rows :: "pen_row list" where
  "ex_pen_rows =
     [\<lparr>pen_state = Some ''Alabama'', pen_county = Some ''Autauga'',
       pen_fips_state = Some 1, pen_fips_cnty = Some 1, pen_fips = Some 1001,
       pen_ssa_state = Some 1, pen_ssa_cnty = Some 0, pen_ssa = Some 1000,
       pen_eligibles = Some 1234, pen_enrolled = Some 25, pen_penetration = Some 2\<rparr>,
      \<lparr>pen_state = Some ''Alabama'', pen_county = None,
       pen_fips_state = None, pen_fips_cnty = None, pen_fips = None,
       pen_ssa_state = None, pen_ssa_cnty = None, pen_ssa = Some 1010,
       pen_eligibles = None, pen_enrolled = None, pen_penetration = None\<rparr>]"

definition ex_contract_short :: csv where
  "ex_contract_short = [[''Contract ID'', ''Plan ID''], [''H0001'', ''NA'', []]]"

definition ex_contract_short_rows :: "contract_row list" where
  "ex_contract_short_rows =
     [\<lparr>c_contractid = Some ''H0001'', c_planid = None, c_org_type = None,
       c_plan_type = None, c_partd = None, c_snp = None, c_eghp = None,
       c_org_name = None, c_org_marketing_name = None, c_plan_name = None,
       c_parent_org = None, c_contract_date = None\<rparr>]"

definition ex_fs_readers :: files where
  "ex_fs_readers p =
     (if p = ''contract.csv'' then Some ex_contract_short
      else if p = ''enroll.csv'' then Some ex_enrollment
      else if p = ''sa.csv'' then Some ex_sa_file
      else if p = ''pen.csv'' then Some ex_pen_file
      else None)"

text \<open>
  An MA-only table with two rows for one plan and county, the first without a premium,
  and an MA-PD table with two rows for the same plan and county and one plan the MA-only
  table does not have.
\<close>

definition ex_ma :: "ma_row list" where
  "ex_ma =
     [\<lparr>ma_contractid = Some ''H5678'', ma_planid = Some 2, ma_state = Some ''AL'',
       ma_county = Some ''Baldwin'', ma_premium = Some 10\<rparr>,
      \<lparr>ma_contractid = Some ''H1234'', ma_planid = Some 1, ma_state = Some ''AL'',
       ma_county = Some ''Autauga'', ma_premium = None\<rparr>,
      \<lparr>ma_contractid = Some ''H1234'', ma_planid = Some 1, ma_state = Some ''AL'',
       ma_county = Some ''Autauga'', ma_premium = Some 25\<rparr>]"

definition ex_mapd :: "(pyval option) mapd_row list" where
  "ex_mapd =
     [\<lparr>pd_contractid = Some ''H9999'', pd_planid = Some (Num 3), pd_state = Some ''AL'',
       pd_county = Some ''Mobile'', premium_partc = Some 0, premium_partd_basic = Some 30,
       premium_partd_supp = None, premium_partd_total = Some 30,
       partd_deductible = Some 100\<rparr>,
      \<lparr>pd_contractid = Some ''H1234'', pd_planid = Some (Str ''1''), pd_state = Some ''AL'',
       pd_county = Some ''Autauga'', premium_partc = Some 0, premium_partd_basic = None,
       premium_partd_supp = None, premium_partd_total = None,
       partd_deductible = None\<rparr>,
      \<lparr>pd_contractid = Some ''H1234'', pd_planid = Some (Str ''1''), pd_state = Some ''AL'',
       pd_county = Some ''Autauga'', premium_partc = None, premium_partd_basic = Some 40,
       premium_partd_supp = Some 5, premium_partd_total = Some 45,
       partd_deductible = Some 200\<rparr>]"

definition ex_store :: store where
  "ex_store = [Ma ex_ma, MapdRaw ex_mapd]"

definition ex_mapd_tidy :: "(real option) mapd_row list" where
  "ex_mapd_tidy =
     [\<lparr>pd_contractid = Some ''H1234'', pd_planid = Some 1, pd_state = Some ''AL'',
       pd_county = Some ''Autauga'', premium_partc = Some 0, premium_partd_basic = None,
       premium_partd_supp = None, premium_partd_total = None,
       partd_deductible = None\<rparr>,
      \<lparr>pd_contractid = Some ''H9999'', pd_planid = Some 3, pd_state = Some ''AL'',
       pd_county = Some ''Mobile'', premium_partc = Some 0, premium_partd_basic = Some 30,
       premium_partd_supp = None, premium_partd_total = Some 30,
       partd_deductible = Some 100\<rparr>]"

definition ex_premiums :: "plan_premium list" where
  "ex_premiums =
     [\<lparr>pp_row =
        \<lparr>pp_contractid = Some ''H1234'', pp_planid = Some 1, pp_state = Some ''AL'',
         pp_county = Some ''Autauga'', pp_premium = None, pp_premium_partc = Some 0,
         pp_premium_partd_basic = None, pp_premium_partd_supp = None,
         pp_premium_partd_total = None, pp_partd_deductible = None\<rparr>,
       pp_year = 2015\<rparr>,
      \<lparr>pp_row =
        \<lparr>pp_contractid = Some ''H5678'', pp_planid = Some 2, pp_state = Some ''AL'',
         pp_county = Some ''Baldwin'', pp_premium = Some 10, pp_premium_partc = None,
         pp_premium_partd_basic = None, pp_premium_partd_supp = None,
         pp_premium_partd_total = None, pp_partd_deductible = None\<rparr>,
       pp_year = 2015\<rparr>,
      \<lparr>pp_row =
        \<lparr>pp_contractid = Some ''H9999'', pp_planid = Some 3, pp_state = Some ''AL'',
         pp_county = Some ''Mobile'', pp_premium = None, pp_premium_partc = Some 0,
         pp_premium_partd_basic = Some 30, pp_premium_partd_supp = None,
         pp_premium_partd_total = Some 30, pp_partd_deductible = Some 100\<rparr>,
       pp_year = 2015\<rparr>]"

section \<open>Properties of the table operations\<close>

lemma set_drop_duplicates_subset: "set (drop_duplicates key rs) \<subseteq> set rs"
  by (induction key rs rule: drop_duplicates.induct) auto

lemma keys_drop_duplicates: "key ` set (drop_duplicates key rs) = key ` set rs"
proof (induction key rs rule: drop_duplicates.induct)
  case (1 key)
  then show ?case by simp
next
  case (2 key r rs)
  have "key ` set (filter (\<lambda>s. key s \<noteq> key r) rs) = key ` set rs - {key r}"
    by auto
  with 2 show ?case by auto
qed

lemma distinct_keys_drop_duplicates: "distinct (map key (drop_duplicates key rs))"
proof (induction key rs rule: drop_duplicates.induct)
  case (1 key)
  then show ?case by simp
next
  case (2 key r rs)
  have "key r \<notin> key ` set (drop_duplicates key (filter (\<lambda>s. key s \<noteq> key r) rs))"
    unfolding keys_drop_duplicates by auto
  with 2 show ?case by simp
qed

lemma drop_duplicates_distinct_id:
  "distinct (map key rs) \<Longrightarrow> drop_duplicates key rs = rs"
proof (induction rs)
  case Nil
  then show ?case by simp
next
  case (Cons r rs)
  then have "filter (\<lambda>s. key s \<noteq> key r) rs = rs"
    by (fastforce simp: filter_id_conv image_iff)
  with Cons show ?case by simp
qed

lemma set_merge_left:
  "set (merge_left kl kr mk ls rs) =
     (\<Union>l \<in> set ls. if filter (\<lambda>r. kr r = kl l) rs = [] then {mk l None}
        else (\<lambda>r. mk l (Some r)) ` set (filter (\<lambda>r. kr r = kl l) rs))"
  by (auto simp: merge_left_def Let_def split: if_splits)

lemma length_merge_left:
  "length (merge_left kl kr mk ls rs) =
     sum_list (map (\<lambda>l. max 1 (length (filter (\<lambda>r. kr r = kl l) rs))) ls)"
  by (induction ls) (auto simp: merge_left_def Let_def max_def not_less_eq_eq)

lemma length_merge_left_ge: "length ls \<le> length (merge_left kl kr mk ls rs)"
  unfolding length_merge_left by (induction ls) auto

lemma length_merge_left_unique:
  "\<forall>l \<in> set ls. length (filter (\<lambda>r. kr r = kl l) rs) \<le> 1 \<Longrightarrow>
   length (merge_left kl kr mk ls rs) = length ls"
  unfolding length_merge_left by (induction ls) (auto simp: max_def)

lemma merge_left_unmatched:
  "l \<in> set ls \<Longrightarrow> filter (\<lambda>r. kr r = kl l) rs = [] \<Longrightarrow>
   mk l None \<in> set (merge_left kl kr mk ls rs)"
  by (auto simp: merge_left_def Let_def)

lemma merge_left_keeps:
  assumes "l \<in> set ls"
  shows "\<exists>ro. mk l ro \<in> set (merge_left kl kr mk ls rs)"
proof (cases "filter (\<lambda>r. kr r = kl l) rs")
  case Nil
  with assms have "mk l None \<in> set (merge_left kl kr mk ls rs)"
    by (simp add: merge_left_unmatched)
  then show ?thesis ..
next
  case (Cons a as)
  then have "a \<in> set (filter (\<lambda>r. kr r = kl l) rs)" by simp
  with assms Cons have "mk l (Some a) \<in> set (merge_left kl kr mk ls rs)"
    unfolding set_merge_left by (intro UN_I[of l]) auto
  then show ?thesis ..
qed

lemma set_insort_by: "set (insort_by lt x xs) = insert x (set xs)"
  by (induction xs) auto

lemma set_sort_values: "set (sort_values lt rs) = set rs"
  unfolding sort_values_def by (induction rs) (auto simp: set_insort_by)

lemma length_groupby_ffill: "length (groupby_ffill key isnull col prev rs) = length rs"
  by (induction rs arbitrary: prev) (auto simp: Let_def)

lemma map_key_map2:
  "length ys = length xs \<Longrightarrow> (\<And>x y. key (f x y) = key x) \<Longrightarrow>
   map key (map2 f xs ys) = map key xs"
  by (induction xs ys rule: list_induct2') auto

lemma keys_ma_ffill: "map ma_key (ma_ffill t) = map ma_key t"
  unfolding ma_ffill_def
  by (rule map_key_map2) (simp_all add: length_groupby_ffill ma_key_def)

lemma keys_mapd_ffill: "map mapd_key (mapd_ffill t) = map mapd_key t"
  unfolding mapd_ffill_def Let_def
  by (rule map_key_map2)
    (auto simp: length_groupby_ffill mapd_key_def set_fill_cols_def split: prod.splits)

lemma keys_ma_tidy: "ma_key ` set (ma_tidy t) = ma_key ` set t"
proof -
  have "ma_key ` set (ma_tidy t) = set (map ma_key (ma_ffill (ma_sort t)))"
    by (simp add: ma_tidy_def ma_dedup_def keys_drop_duplicates)
  also have "\<dots> = ma_key ` set t"
    by (simp add: keys_ma_ffill ma_sort_def set_sort_values)
  finally show ?thesis .
qed

lemma keys_mapd_tidy: "mapd_key ` set (mapd_tidy P t) = mapd_key ` set (mapd_numeric P t)"
proof -
  have "mapd_key ` set (mapd_tidy P t) =
      set (map mapd_key (mapd_ffill (mapd_sort (mapd_numeric P t))))"
    by (simp add: mapd_tidy_def mapd_dedup_def keys_drop_duplicates)
  also have "\<dots> = mapd_key ` set (mapd_numeric P t)"
    by (simp add: keys_mapd_ffill mapd_sort_def set_sort_values)
  finally show ?thesis .
qed

lemma distinct_ma_tidy: "distinct (map ma_key (ma_tidy t))"
  by (simp add: ma_tidy_def ma_dedup_def distinct_keys_drop_duplicates)

lemma distinct_mapd_tidy: "distinct (map mapd_key (mapd_tidy P t))"
  by (simp add: mapd_tidy_def mapd_dedup_def distinct_keys_drop_duplicates)

lemma distinct_filter_key_le1:
  "distinct (map kr rs) \<Longrightarrow> length (filter (\<lambda>r. kr r = k) rs) \<le> 1"
  by (induction rs) (auto simp: filter_empty_conv image_iff)

lemma keys_merge_left:
  assumes "distinct (map kr rs)" and "\<And>l ro. ko (mk l ro) = kl l"
  shows "map ko (merge_left kl kr mk ls rs) = map kl ls"
proof (induction ls)
  case Nil
  then show ?case by (simp add: merge_left_def)
next
  case (Cons l ls)
  have "length (filter (\<lambda>r. kr r = kl l) rs) \<le> 1"
    using assms(1) by (rule distinct_filter_key_le1)
  then have "filter (\<lambda>r. kr r = kl l) rs = [] \<or> (\<exists>r. filter (\<lambda>r. kr r = kl l) rs = [r])"
    by (cases "filter (\<lambda>r. kr r = kl l) rs"; cases "tl (filter (\<lambda>r. kr r = kl l) rs)") auto
  with Cons assms(2) show ?case
    by (auto simp: merge_left_def Let_def)
qed

lemma keys_merge_outer:
  assumes "distinct (map kr rs)" and "\<And>l ro. ko (mk (Some l) ro) = kl l"
    and "\<And>r. ko (mk None (Some r)) = kr r"
  shows "map ko (merge_outer kl kr mk ls rs) =
     map kl ls @ filter (\<lambda>k. k \<notin> kl ` set ls) (map kr rs)"
  using assms
  by (simp add: merge_outer_def keys_merge_left [where ko = ko and kl = kl] filter_map comp_def)

lemma distinct_count:
  "distinct xs \<Longrightarrow> length (filter (\<lambda>x. x = k) xs) = (if k \<in> set xs then 1 else 0)"
  by (induction xs) auto

lemma merge_outer_once:
  assumes "distinct (map kl ls)" "distinct (map kr rs)"
    and "\<And>l ro. ko (mk (Some l) ro) = kl l" and "\<And>r. ko (mk None (Some r)) = kr r"
  shows "length (filter (\<lambda>x. ko x = k) (merge_outer kl kr mk ls rs)) =
     (if k \<in> kl ` set ls \<union> kr ` set rs then 1 else 0)"
proof -
  let ?ks = "map kl ls @ filter (\<lambda>k. k \<notin> kl ` set ls) (map kr rs)"
  have ks: "map ko (merge_outer kl kr mk ls rs) = ?ks"
    using assms(2-4) by (rule keys_merge_outer)
  have d: "distinct ?ks" using assms(1,2) by auto
  have "length (filter (\<lambda>x. ko x = k) (merge_outer kl kr mk ls rs)) =
      length (filter (\<lambda>x. x = k) (map ko (merge_outer kl kr mk ls rs)))"
    by (simp add: filter_map comp_def)
  also have "\<dots> = (if k \<in> set ?ks then 1 else 0)"
    unfolding ks using d by (rule distinct_count)
  also have "\<dots> = (if k \<in> kl ` set ls \<union> kr ` set rs then 1 else 0)"
    by auto
  finally show ?thesis .
qed

lemma find_filter:
  "(\<And>x. P x \<Longrightarrow> Q x) \<Longrightarrow> find P (filter Q xs) = find P xs"
  by (induction xs) auto

lemma find_drop_duplicates:
  "find (\<lambda>r. key r = k) (drop_duplicates key rs) = find (\<lambda>r. key r = k) rs"
proof (induction key rs rule: drop_duplicates.induct)
  case (1 key)
  then show ?case by simp
next
  case (2 key r rs)
  show ?case
  proof (cases "key r = k")
    case True
    then show ?thesis by simp
  next
    case False
    then have "find (\<lambda>r. key r = k) (filter (\<lambda>s. key s \<noteq> key r) rs) = find (\<lambda>r. key r = k) rs"
      by (intro find_filter) auto
    with 2 False show ?thesis by simp
  qed
qed

lemma find_groupby_ffill:
  assumes "\<And>r v. key (upd r v) = key r"
  shows "find (\<lambda>r. key r = k) (map2 upd rs (groupby_ffill key isnull col prev rs)) =
     map_option (\<lambda>r. upd r (if isnull k then None
                             else case col r of Some x \<Rightarrow> Some x | None \<Rightarrow> prev k))
       (find (\<lambda>r. key r = k) rs)"
  using assms
  by (induction rs arbitrary: prev) (auto simp: Let_def cong: option.case_cong)

lemma find_ma_tidy:
  assumes "\<not> key_isnull k"
  shows "find (\<lambda>r. ma_key r = k) (ma_tidy t) = find (\<lambda>r. ma_key r = k) (ma_sort t)"
proof -
  have "find (\<lambda>r. ma_key r = k) (ma_tidy t) = find (\<lambda>r. ma_key r = k) (ma_ffill (ma_sort t))"
    by (simp add: ma_tidy_def ma_dedup_def find_drop_duplicates)
  also have "\<dots> = map_option (\<lambda>r. r\<lparr>ma_premium := (case ma_premium r of Some x \<Rightarrow> Some x | None \<Rightarrow> None)\<rparr>)
       (find (\<lambda>r. ma_key r = k) (ma_sort t))"
    unfolding ma_ffill_def using assms
    by (subst find_groupby_ffill) (simp_all add: ma_key_def)
  also have "\<dots> = find (\<lambda>r. ma_key r = k) (ma_sort t)"
  proof -
    have "(\<lambda>r. r\<lparr>ma_premium := (case ma_premium r of Some x \<Rightarrow> Some x | None \<Rightarrow> None)\<rparr>) = (\<lambda>r::ma_row. r)"
      by (auto split: option.splits)
    then show ?thesis by (simp add: option.map_ident)
  qed
  finally show ?thesis .
qed

lemma find_distinct_unique:
  "distinct (map key xs) \<Longrightarrow> find (\<lambda>r. key r = k) xs = Some r0 \<Longrightarrow> l \<in> set xs \<Longrightarrow>
   key l = k \<Longrightarrow> l = r0"
  by (induction xs) (auto split: if_splits simp: image_iff)

section \<open>The examples, evaluated\<close>

lemma paths_neq: "c_path m y \<noteq> e_path m y" "e_path m y \<noteq> c_path m y"
  by (simp_all add: c_path_def e_path_def)

lemma digits_only_simps:
  "float_of_text digits_only ''1'' = Some 1"
  "float_of_text digits_only ''2'' = Some 2"
  "float_of_text digits_only ''25'' = Some 25"
  "float_of_text digits_only ''1000'' = Some 1000"
  "float_of_text digits_only ''1001'' = Some 1001"
  "float_of_text digits_only ''1010'' = Some 1010"
  "float_of_text digits_only ''1003'' = Some 1003"
  "float_of_text digits_only ''1234'' = Some 1234"
  "float_of_text digits_only ''12x'' = None"
  by (simp_all add: digits_only_def py_nat_def digit_val_def)

lemma py_int_01: "py_int ''01'' = Some 1"
  by (simp add: py_int_def py_strip_def is_space_def py_nat_def digit_val_def)

lemma read_contract_ex:
  "read_contract digits_only ex_fs (c_path ''01'' 2015) = Inr ex_contract_rows"
  by (simp add: read_contract_def read_csv_def ex_fs_def ex_contracts_def contract_of_line_def
      bind_err_def as_float_def as_str_def is_na_def contract_na_def STR_NA_VALUES_def
      field_def digits_only_simps ex_contract_rows_def)

lemma read_enroll_ex:
  "read_enroll digits_only ex_fs (e_path ''01'' 2015) = Inr ex_enroll_rows"
  by (simp add: read_enroll_def read_csv_def ex_fs_def ex_enrollment_def enroll_of_line_def
      paths_neq bind_err_def as_float_def as_str_def is_na_def enroll_na_def
      STR_NA_VALUES_def field_def digits_only_simps ex_enroll_rows_def)

lemma dedup_ex:
  "drop_duplicates contract_key ex_contract_rows = [ex_contract_rows ! 0, ex_contract_rows ! 2]"
  by (simp add: ex_contract_rows_def contract_key_def)

lemma load_month_ex: "load_month digits_only ex_fs ''01'' 2015 = Inr ex_panel"
proof -
  have files: "ex_fs (c_path ''01'' 2015) \<noteq> None" "ex_fs (e_path ''01'' 2015) \<noteq> None"
    by (simp_all add: ex_fs_def)
  have "merge_left contract_key enroll_key join_enroll
          (drop_duplicates contract_key ex_contract_rows) ex_enroll_rows =
        [join_enroll (ex_contract_rows ! 0) (Some (ex_enroll_rows ! 0)),
         join_enroll (ex_contract_rows ! 0) (Some (ex_enroll_rows ! 1)),
         join_enroll (ex_contract_rows ! 2) None]"
    by (simp add: ex_contract_rows_def ex_enroll_rows_def merge_left_def contract_key_def
        enroll_key_def)
  with files show ?thesis
    by (simp add: load_month_def read_contract_ex read_enroll_ex bind_err_def stamp_def
        py_int_01 ex_panel_def)
qed

lemma read_contract_ex_one:
  "read_contract digits_only ex_fs_one (c_path ''01'' 2015) = Inr ex_contract_rows"
  using read_contract_ex by (simp add: read_contract_def read_csv_def ex_fs_def ex_fs_one_def)

lemma read_enroll_ex_one:
  "read_enroll digits_only ex_fs_one (e_path ''01'' 2015) = Inr [ex_enroll_rows ! 0]"
  by (simp add: read_enroll_def read_csv_def ex_fs_one_def ex_enrollment_def enroll_of_line_def
      paths_neq bind_err_def as_float_def as_str_def is_na_def enroll_na_def
      STR_NA_VALUES_def field_def digits_only_simps ex_enroll_rows_def)

lemma load_month_ex_one: "load_month digits_only ex_fs_one ''01'' 2015 = Inr ex_panel_one"
proof -
  have files: "ex_fs_one (c_path ''01'' 2015) \<noteq> None" "ex_fs_one (e_path ''01'' 2015) \<noteq> None"
    by (simp_all add: ex_fs_one_def)
  have "merge_left contract_key enroll_key join_enroll
          (drop_duplicates contract_key ex_contract_rows) [ex_enroll_rows ! 0] =
        [join_enroll (ex_contract_rows ! 0) (Some (ex_enroll_rows ! 0)),
         join_enroll (ex_contract_rows ! 2) None]"
    by (simp add: ex_contract_rows_def ex_enroll_rows_def merge_left_def contract_key_def
        enroll_key_def)
  with files show ?thesis
    by (simp add: load_month_def read_contract_ex_one read_enroll_ex_one bind_err_def stamp_def
        py_int_01 ex_panel_one_def)
qed

lemma matches_ex_one:
  "\<forall>c \<in> set (drop_duplicates contract_key ex_contract_rows).
     length (filter (\<lambda>e. enroll_key e = contract_key c) [ex_enroll_rows ! 0]) \<le> 1"
  by simp

section \<open>The readers, line by line\<close>

lemma map_err_Inr_length: "map_err f xs = Inr ys \<Longrightarrow> length ys = length xs"
  by (induction xs arbitrary: ys) (auto split: sum.splits)

lemma map_err_Inr_nth:
  "map_err f xs = Inr ys \<Longrightarrow> j < length ys \<Longrightarrow> f (xs ! j) = Inr (ys ! j)"
proof (induction xs arbitrary: ys j)
  case Nil
  then show ?case by simp
next
  case (Cons x xs)
  then show ?case
    by (cases j) (auto split: sum.splits)
qed

lemma read_csv_Inr_nth:
  assumes "read_csv fs path n conv = Inr t" "fs path = Some lines" "j < length t"
  shows "conv (lines ! Suc j) = Inr (t ! j)"
proof -
  let ?f = "\<lambda>line. if n < length line then Inl ParserError else conv line"
  from assms(1,2) have m: "map_err ?f (drop 1 lines) = Inr t"
    by (simp add: read_csv_def)
  from map_err_Inr_length [OF m] have len: "length t = length (drop 1 lines)" .
  from map_err_Inr_nth [OF m assms(3)] have f: "?f (drop 1 lines ! j) = Inr (t ! j)" .
  from len assms(3) have "drop 1 lines ! j = lines ! Suc j"
    by simp
  with f show ?thesis by (simp split: if_splits)
qed

lemma as_str_na: "is_na na s \<Longrightarrow> as_str na s = None"
  by (simp add: as_str_def)

lemma as_float_na: "is_na na s \<Longrightarrow> as_float P na s = Inr v \<longleftrightarrow> v = None"
  by (auto simp: as_float_def)

lemma as_Int64_na: "is_na na s \<Longrightarrow> as_Int64 P na s = Inr v \<longleftrightarrow> v = None"
  by (auto simp: as_Int64_def)

lemma pen_numeric_na: "is_na pen_na s \<Longrightarrow> pen_numeric P s = None"
  by (simp add: pen_numeric_def as_str_def astype_str_def str_remove_def to_numeric_coerce_def)

lemma partial_of_text_na: "is_na sa_na s \<Longrightarrow> partial_of_text s = None"
  by (simp add: partial_of_text_def as_str_def series_map_def)

lemma is_na_sentinels:
  "s \<in> set [''*'', [], ''NA'', ''-'', ''--''] \<Longrightarrow> is_na pen_na s"
  "s \<in> set [''*'', [], ''NA''] \<Longrightarrow> is_na enroll_na s"
  "s \<in> set [''*'', [], ''NA''] \<Longrightarrow> is_na sa_na s"
  "s \<in> set [[], ''NA''] \<Longrightarrow> is_na contract_na s"
  by (auto simp: is_na_def pen_na_def enroll_na_def sa_na_def STR_NA_VALUES_def)

lemma pen_of_line_InrD:
  assumes "pen_of_line P line = Inr r"
  shows "pen_state r = as_str pen_na (field line 0)"
    "pen_county r = as_str pen_na (field line 1)"
    "as_Int64 P pen_na (field line 2) = Inr (pen_fips_state r)"
    "as_Int64 P pen_na (field line 3) = Inr (pen_fips_cnty r)"
    "as_float P pen_na (field line 4) = Inr (pen_fips r)"
    "as_Int64 P pen_na (field line 5) = Inr (pen_ssa_state r)"
    "as_Int64 P pen_na (field line 6) = Inr (pen_ssa_cnty r)"
    "as_float P pen_na (field line 7) = Inr (pen_ssa r)"
    "pen_eligibles r = pen_numeric P (field line 8)"
    "pen_enrolled r = pen_numeric P (field line 9)"
    "pen_penetration r = pen_numeric P (field line 10)"
  using assms by (auto simp: pen_of_line_def bind_err_def split: sum.splits)

lemma enroll_of_line_InrD:
  assumes "enroll_of_line P line = Inr r"
  shows "e_contractid r = as_str enroll_na (field line 0)"
    "as_float P enroll_na (field line 1) = Inr (e_planid r)"
    "as_float P enroll_na (field line 2) = Inr (e_ssa r)"
    "as_float P enroll_na (field line 3) = Inr (e_fips r)"
    "e_state r = as_str enroll_na (field line 4)"
    "e_county r = as_str enroll_na (field line 5)"
    "as_float P enroll_na (field line 6) = Inr (e_enrollment r)"
  using assms by (auto simp: enroll_of_line_def bind_err_def split: sum.splits)

lemma sa_of_line_InrD:
  assumes "sa_of_line P line = Inr r"
  shows "sa_contractid r = as_str sa_na (field line 0)"
    "sa_org_name r = as_str sa_na (field line 1)"
    "sa_org_type r = as_str sa_na (field line 2)"
    "sa_plan_type r = as_str sa_na (field line 3)"
    "sa_partial r = partial_of_text (field line 4)"
    "sa_eghp r = as_str sa_na (field line 5)"
    "as_float P sa_na (field line 6) = Inr (sa_ssa r)"
    "as_float P sa_na (field line 7) = Inr (sa_fips r)"
    "sa_county r = as_str sa_na (field line 8)"
    "sa_state r = as_str sa_na (field line 9)"
    "sa_notes r = as_str sa_na (field line 10)"
  using assms by (auto simp: sa_of_line_def bind_err_def split: sum.splits)

lemma contract_of_line_InrD:
  assumes "contract_of_line P line = Inr r"
  shows "c_contractid r = as_str contract_na (field line 0)"
    "as_float P contract_na (field line 1) = Inr (c_planid r)"
    "c_org_type r = as_str contract_na (field line 2)"
    "c_plan_type r = as_str contract_na (field line 3)"
    "c_partd r = as_str contract_na (field line 4)"
    "c_snp r = as_str contract_na (field line 5)"
    "c_eghp r = as_str contract_na (field line 6)"
    "c_org_name r = as_str contract_na (field line 7)"
    "c_org_marketing_name r = as_str contract_na (field line 8)"
    "c_plan_name r = as_str contract_na (field line 9)"
    "c_parent_org r = as_str contract_na (field line 10)"
    "c_contract_date r = as_str contract_na (field line 11)"
  using assms by (auto simp: contract_of_line_def bind_err_def split: sum.splits)

lemma pen_line_isna:
  assumes r: "pen_of_line P line = Inr r" and i: "i < 11" and na: "is_na pen_na (field line i)"
  shows "pen_isna r ! i"
proof -
  from i have "i = 0 \<or> i = 1 \<or> i = 2 \<or> i = 3 \<or> i = 4 \<or> i = 5 \<or> i = 6 \<or> i = 7 \<or> i = 8
      \<or> i = 9 \<or> i = 10"
    by arith
  with na pen_of_line_InrD [OF r] show ?thesis
    by (auto simp: pen_isna_def as_str_na as_float_na as_Int64_na pen_numeric_na)
qed

lemma enroll_line_isna:
  assumes r: "enroll_of_line P line = Inr r" and i: "i < 7" and na: "is_na enroll_na (field line i)"
  shows "enroll_isna r ! i"
proof -
  from i have "i = 0 \<or> i = 1 \<or> i = 2 \<or> i = 3 \<or> i = 4 \<or> i = 5 \<or> i = 6"
    by arith
  with na enroll_of_line_InrD [OF r] show ?thesis
    by (auto simp: enroll_isna_def as_str_na as_float_na)
qed

lemma sa_line_isna:
  assumes r: "sa_of_line P line = Inr r" and i: "i < 11" and na: "is_na sa_na (field line i)"
  shows "sa_isna r ! i"
proof -
  from i have "i = 0 \<or> i = 1 \<or> i = 2 \<or> i = 3 \<or> i = 4 \<or> i = 5 \<or> i = 6 \<or> i = 7 \<or> i = 8
      \<or> i = 9 \<or> i = 10"
    by arith
  with na sa_of_line_InrD [OF r] show ?thesis
    by (auto simp: sa_isna_def as_str_na as_float_na partial_of_text_na)
qed

lemma contract_line_isna:
  assumes r: "contract_of_line P line = Inr r" and i: "i < 12"
    and na: "is_na contract_na (field line i)"
  shows "contract_isna r ! i"
proof -
  from i have "i = 0 \<or> i = 1 \<or> i = 2 \<or> i = 3 \<or> i = 4 \<or> i = 5 \<or> i = 6 \<or> i = 7 \<or> i = 8
      \<or> i = 9 \<or> i = 10 \<or> i = 11"
    by arith
  with na contract_of_line_InrD [OF r] show ?thesis
    by (auto simp: contract_isna_def as_str_na as_float_na)
qed

subsection \<open>The reader examples, evaluated\<close>

lemma digits_only_more:
  "float_of_text digits_only ''25'' = Some 25"
  "float_of_text digits_only ''2'' = Some 2"
  "int_of_text digits_only ''1'' = Some 1"
  "int_of_text digits_only ''0'' = Some 0"
  by (simp_all add: digits_only_def py_nat_def digit_val_def py_int_def py_strip_def is_space_def)

lemma read_sa_ex: "read_service_area digits_only ex_fs_readers ''sa.csv'' = Inr ex_sa_rows"
  by (simp add: read_service_area_def read_csv_def ex_fs_readers_def ex_sa_file_def
      sa_of_line_def bind_err_def as_float_def as_str_def is_na_def sa_na_def
      STR_NA_VALUES_def field_def digits_only_simps ex_sa_rows_def partial_of_text_def
      series_map_def partial_dict_def)

lemma read_pen_ex: "read_penetration digits_only ex_fs_readers ''pen.csv'' = Inr ex_pen_rows"
  by (simp add: read_penetration_def read_csv_def ex_fs_readers_def ex_pen_file_def
      pen_of_line_def bind_err_def as_float_def as_Int64_def as_str_def is_na_def pen_na_def
      STR_NA_VALUES_def field_def digits_only_simps digits_only_more ex_pen_rows_def
      pen_numeric_def astype_str_def str_remove_def to_numeric_coerce_def)

lemma read_enroll_ex2: "read_enroll digits_only ex_fs_readers ''enroll.csv'' = Inr ex_enroll_rows"
  by (simp add: read_enroll_def read_csv_def ex_fs_readers_def ex_enrollment_def
      enroll_of_line_def bind_err_def as_float_def as_str_def is_na_def enroll_na_def
      STR_NA_VALUES_def field_def digits_only_simps ex_enroll_rows_def)

lemma read_contract_short_ex:
  "read_contract digits_only ex_fs_readers ''contract.csv'' = Inr ex_contract_short_rows"
  by (simp add: read_contract_def read_csv_def ex_fs_readers_def ex_contract_short_def
      contract_of_line_def bind_err_def as_float_def as_str_def is_na_def contract_na_def
      STR_NA_VALUES_def field_def ex_contract_short_rows_def)

lemma fs_readers:
  "ex_fs_readers ''contract.csv'' = Some ex_contract_short"
  "ex_fs_readers ''enroll.csv'' = Some ex_enrollment"
  "ex_fs_readers ''sa.csv'' = Some ex_sa_file"
  "ex_fs_readers ''pen.csv'' = Some ex_pen_file"
  by (simp_all add: ex_fs_readers_def)

section \<open>The readers\<close>

text \<open>
  C4, as the code has it.  In the table a reader returns, a field that held one of the
  reader's own missing-value texts is the absent marker, in text, number and boolean
  columns alike, and such a text in a number column does not make the reader raise: the
  penetration reader for all of \<open>*\<close>, the empty text, \<open>NA\<close>, \<open>-\<close> and \<open>--\<close>; the
  enrollment and service-area readers for \<open>*\<close>, the empty text and \<open>NA\<close>; the contract
  reader for the empty text and \<open>NA\<close>.  A line of such texts alone is read as the row with
  every column absent.
\<close>

theorem sentinels_per_reader:
  "(read_penetration P fs path = Inr tp \<and> fs path = Some lines \<and> j < length tp \<and> i < 11
      \<and> field (lines ! Suc j) i \<in> set [''*'', [], ''NA'', ''-'', ''--'']
      \<longrightarrow> pen_isna (tp ! j) ! i)
   \<and> (read_enroll P fs path = Inr te \<and> fs path = Some lines \<and> j < length te \<and> i < 7
      \<and> field (lines ! Suc j) i \<in> set [''*'', [], ''NA'']
      \<longrightarrow> enroll_isna (te ! j) ! i)
   \<and> (read_service_area P fs path = Inr ts \<and> fs path = Some lines \<and> j < length ts \<and> i < 11
      \<and> field (lines ! Suc j) i \<in> set [''*'', [], ''NA'']
      \<longrightarrow> sa_isna (ts ! j) ! i)
   \<and> (read_contract P fs path = Inr tc \<and> fs path = Some lines \<and> j < length tc \<and> i < 12
      \<and> field (lines ! Suc j) i \<in> set [[], ''NA'']
      \<longrightarrow> contract_isna (tc ! j) ! i)
   \<and> ((\<forall>i < 11. field line i \<in> set [''*'', [], ''NA'', ''-'', ''--'']) \<longrightarrow>
        pen_of_line P line =
          Inr \<lparr>pen_state = None, pen_county = None, pen_fips_state = None,
               pen_fips_cnty = None, pen_fips = None, pen_ssa_state = None,
               pen_ssa_cnty = None, pen_ssa = None, pen_eligibles = None,
               pen_enrolled = None, pen_penetration = None\<rparr>)
   \<and> ((\<forall>i < 7. field line i \<in> set [''*'', [], ''NA'']) \<longrightarrow>
        enroll_of_line P line =
          Inr \<lparr>e_contractid = None, e_planid = None, e_ssa = None, e_fips = None,
               e_state = None, e_county = None, e_enrollment = None\<rparr>)
   \<and> ((\<forall>i < 11. field line i \<in> set [''*'', [], ''NA'']) \<longrightarrow>
        sa_of_line P line =
          Inr \<lparr>sa_contractid = None, sa_org_name = None, sa_org_type = None,
               sa_plan_type = None, sa_partial = None, sa_eghp = None, sa_ssa = None,
               sa_fips = None, sa_county = None, sa_state = None, sa_notes = None\<rparr>)
   \<and> ((\<forall>i < 12. field line i \<in> set [[], ''NA'']) \<longrightarrow>
        contract_of_line P line =
          Inr \<lparr>c_contractid = None, c_planid = None, c_org_type = None,
               c_plan_type = None, c_partd = None, c_snp = None, c_eghp = None,
               c_org_name = None, c_org_marketing_name = None, c_plan_name = None,
               c_parent_org = None, c_contract_date = None\<rparr>)"
proof (intro conjI impI; (elim conjE)?)
  assume "read_penetration P fs path = Inr tp" "fs path = Some lines" "j < length tp"
  then have "pen_of_line P (lines ! Suc j) = Inr (tp ! j)"
    unfolding read_penetration_def by (rule read_csv_Inr_nth)
  moreover assume "i < 11" "field (lines ! Suc j) i \<in> set [''*'', [], ''NA'', ''-'', ''--'']"
  ultimately show "pen_isna (tp ! j) ! i"
    by (intro pen_line_isna is_na_sentinels)
next
  assume "read_enroll P fs path = Inr te" "fs path = Some lines" "j < length te"
  then have "enroll_of_line P (lines ! Suc j) = Inr (te ! j)"
    unfolding read_enroll_def by (rule read_csv_Inr_nth)
  moreover assume "i < 7" "field (lines ! Suc j) i \<in> set [''*'', [], ''NA'']"
  ultimately show "enroll_isna (te ! j) ! i"
    by (intro enroll_line_isna is_na_sentinels)
next
  assume "read_service_area P fs path = Inr ts" "fs path = Some lines" "j < length ts"
  then have "sa_of_line P (lines ! Suc j) = Inr (ts ! j)"
    unfolding read_service_area_def by (rule read_csv_Inr_nth)
  moreover assume "i < 11" "field (lines ! Suc j) i \<in> set [''*'', [], ''NA'']"
  ultimately show "sa_isna (ts ! j) ! i"
    by (intro sa_line_isna is_na_sentinels)
next
  assume "read_contract P fs path = Inr tc" "fs path = Some lines" "j < length tc"
  then have "contract_of_line P (lines ! Suc j) = Inr (tc ! j)"
    unfolding read_contract_def by (rule read_csv_Inr_nth)
  moreover assume "i < 12" "field (lines ! Suc j) i \<in> set [[], ''NA'']"
  ultimately show "contract_isna (tc ! j) ! i"
    by (intro contract_line_isna is_na_sentinels)
next
  assume "\<forall>i < 11. field line i \<in> set [''*'', [], ''NA'', ''-'', ''--'']"
  then have "\<forall>i < 11. is_na pen_na (field line i)"
    using is_na_sentinels(1) by blast
  then show "pen_of_line P line =
          Inr \<lparr>pen_state = None, pen_county = None, pen_fips_state = None,
               pen_fips_cnty = None, pen_fips = None, pen_ssa_state = None,
               pen_ssa_cnty = None, pen_ssa = None, pen_eligibles = None,
               pen_enrolled = None, pen_penetration = None\<rparr>"
    by (simp add: pen_of_line_def bind_err_def as_str_def as_float_def as_Int64_def
        pen_numeric_na)
next
  assume "\<forall>i < 7. field line i \<in> set [''*'', [], ''NA'']"
  then have "\<forall>i < 7. is_na enroll_na (field line i)"
    using is_na_sentinels(2) by blast
  then show "enroll_of_line P line =
          Inr \<lparr>e_contractid = None, e_planid = None, e_ssa = None, e_fips = None,
               e_state = None, e_county = None, e_enrollment = None\<rparr>"
    by (simp add: enroll_of_line_def bind_err_def as_str_def as_float_def)
next
  assume "\<forall>i < 11. field line i \<in> set [''*'', [], ''NA'']"
  then have "\<forall>i < 11. is_na sa_na (field line i)"
    using is_na_sentinels(3) by blast
  then show "sa_of_line P line =
          Inr \<lparr>sa_contractid = None, sa_org_name = None, sa_org_type = None,
               sa_plan_type = None, sa_partial = None, sa_eghp = None, sa_ssa = None,
               sa_fips = None, sa_county = None, sa_state = None, sa_notes = None\<rparr>"
    by (simp add: sa_of_line_def bind_err_def as_str_def as_float_def partial_of_text_na)
next
  assume "\<forall>i < 12. field line i \<in> set [[], ''NA'']"
  then have "\<forall>i < 12. is_na contract_na (field line i)"
    using is_na_sentinels(4) by blast
  then show "contract_of_line P line =
          Inr \<lparr>c_contractid = None, c_planid = None, c_org_type = None,
               c_plan_type = None, c_partd = None, c_snp = None, c_eghp = None,
               c_org_name = None, c_org_marketing_name = None, c_plan_name = None,
               c_parent_org = None, c_contract_date = None\<rparr>"
    by (simp add: contract_of_line_def bind_err_def as_str_def as_float_def)
qed

theorem sentinels_per_reader_witness:
  "read_penetration digits_only ex_fs_readers ''pen.csv'' = Inr ex_pen_rows
   \<and> field (ex_pen_file ! 2) 3 = ''*'' \<and> pen_isna (ex_pen_rows ! 1) ! 3
   \<and> field (ex_pen_file ! 2) 5 = ''--'' \<and> pen_isna (ex_pen_rows ! 1) ! 5
   \<and> read_enroll digits_only ex_fs_readers ''enroll.csv'' = Inr ex_enroll_rows
   \<and> field (ex_enrollment ! 2) 6 = ''*'' \<and> enroll_isna (ex_enroll_rows ! 1) ! 6
   \<and> read_service_area digits_only ex_fs_readers ''sa.csv'' = Inr ex_sa_rows
   \<and> field (ex_sa_file ! 2) 7 = ''NA'' \<and> sa_isna (ex_sa_rows ! 1) ! 7
   \<and> read_contract digits_only ex_fs_readers ''contract.csv'' = Inr ex_contract_short_rows
   \<and> field (ex_contract_short ! 1) 1 = ''NA'' \<and> contract_isna (ex_contract_short_rows ! 0) ! 1
   \<and> field (ex_contract_short ! 1) 11 = [] \<and> contract_isna (ex_contract_short_rows ! 0) ! 11
   \<and> pen_of_line digits_only [''*'', [], ''NA'', ''-'', ''--''] =
        Inr \<lparr>pen_state = None, pen_county = None, pen_fips_state = None,
             pen_fips_cnty = None, pen_fips = None, pen_ssa_state = None,
             pen_ssa_cnty = None, pen_ssa = None, pen_eligibles = None,
             pen_enrolled = None, pen_penetration = None\<rparr>"
proof -
  have f: "field (ex_pen_file ! 2) 3 = ''*''" "field (ex_pen_file ! 2) 5 = ''--''"
    "field (ex_enrollment ! 2) 6 = ''*''" "field (ex_sa_file ! 2) 7 = ''NA''"
    "field (ex_contract_short ! 1) 1 = ''NA''" "field (ex_contract_short ! 1) 11 = []"
    by (simp_all add: field_def ex_pen_file_def ex_enrollment_def ex_sa_file_def
        ex_contract_short_def)
  have m: "field (ex_pen_file ! Suc 1) 3 \<in> set [''*'', [], ''NA'', ''-'', ''--'']"
    "field (ex_pen_file ! Suc 1) 5 \<in> set [''*'', [], ''NA'', ''-'', ''--'']"
    "field (ex_enrollment ! Suc 1) 6 \<in> set [''*'', [], ''NA'']"
    "field (ex_sa_file ! Suc 1) 7 \<in> set [''*'', [], ''NA'']"
    "field (ex_contract_short ! Suc 0) 1 \<in> set [[], ''NA'']"
    "field (ex_contract_short ! Suc 0) 11 \<in> set [[], ''NA'']"
    by (simp_all add: field_def ex_pen_file_def ex_enrollment_def ex_sa_file_def
        ex_contract_short_def)
  have len: "1 < length ex_pen_rows" "1 < length ex_enroll_rows" "1 < length ex_sa_rows"
    "0 < length ex_contract_short_rows"
    by (simp_all add: ex_pen_rows_def ex_enroll_rows_def ex_sa_rows_def
        ex_contract_short_rows_def)
  have ix: "(3::nat) < 11" "(5::nat) < 11" "(6::nat) < 7" "(7::nat) < 11" "(1::nat) < 12"
    "(11::nat) < 12"
    by simp_all
  have all: "\<forall>i < 11. field [''*'', [], ''NA'', ''-'', ''--''] i \<in> set [''*'', [], ''NA'', ''-'', ''--'']"
    by (simp add: field_def nth_Cons')
  note s = sentinels_per_reader [where P = digits_only and fs = ex_fs_readers]
  have p3: "pen_isna (ex_pen_rows ! 1) ! 3"
    using s [where path = "''pen.csv''" and lines = ex_pen_file and tp = ex_pen_rows
        and j = 1 and i = 3] read_pen_ex fs_readers(4) m(1) len(1) ix(1)
    by blast
  have p5: "pen_isna (ex_pen_rows ! 1) ! 5"
    using s [where path = "''pen.csv''" and lines = ex_pen_file and tp = ex_pen_rows
        and j = 1 and i = 5] read_pen_ex fs_readers(4) m(2) len(1) ix(2)
    by blast
  have e6: "enroll_isna (ex_enroll_rows ! 1) ! 6"
    using s [where path = "''enroll.csv''" and lines = ex_enrollment and te = ex_enroll_rows
        and j = 1 and i = 6] read_enroll_ex2 fs_readers(2) m(3) len(2) ix(3)
    by blast
  have s7: "sa_isna (ex_sa_rows ! 1) ! 7"
    using s [where path = "''sa.csv''" and lines = ex_sa_file and ts = ex_sa_rows
        and j = 1 and i = 7] read_sa_ex fs_readers(3) m(4) len(3) ix(4)
    by blast
  have c1: "contract_isna (ex_contract_short_rows ! 0) ! 1"
    using s [where path = "''contract.csv''" and lines = ex_contract_short
        and tc = ex_contract_short_rows and j = 0 and i = 1]
      read_contract_short_ex fs_readers(1) m(5) len(4) ix(5)
    by blast
  have c11: "contract_isna (ex_contract_short_rows ! 0) ! 11"
    using s [where path = "''contract.csv''" and lines = ex_contract_short
        and tc = ex_contract_short_rows and j = 0 and i = 11]
      read_contract_short_ex fs_readers(1) m(6) len(4) ix(6)
    by blast
  have pl: "pen_of_line digits_only [''*'', [], ''NA'', ''-'', ''--''] =
        Inr \<lparr>pen_state = None, pen_county = None, pen_fips_state = None,
             pen_fips_cnty = None, pen_fips = None, pen_ssa_state = None,
             pen_ssa_cnty = None, pen_ssa = None, pen_eligibles = None,
             pen_enrolled = None, pen_penetration = None\<rparr>"
    using s [where line = "[''*'', [], ''NA'', ''-'', ''--'']"] all by blast
  from f p3 p5 e6 s7 c1 c11 pl read_pen_ex read_enroll_ex2 read_sa_ex read_contract_short_ex
  show ?thesis by (intro conjI)
qed

text \<open>
  C4, as stated, fails: the contract reader leaves \<open>*\<close>, \<open>-\<close> and \<open>--\<close> in its output as
  the texts they are.
\<close>

theorem read_contract_keeps_sentinels:
  "read_contract digits_only ex_fs (c_path ''01'' 2015) = Inr ex_contract_rows
   \<and> c_org_type (ex_contract_rows ! 2) = Some ''*''
   \<and> c_parent_org (ex_contract_rows ! 2) = Some ''-''
   \<and> c_contract_date (ex_contract_rows ! 2) = Some ''--''"
  by (simp add: read_contract_ex) (simp add: ex_contract_rows_def)

text \<open>
  C6.  The penetration reader parses the eligibles, enrolled and penetration fields of
  every line after removing every comma and every percent sign, so \<open>1,234%\<close> and \<open>1234\<close>
  give the same value; the parse is a total function, a text that is no number once
  stripped (such as \<open>n/a\<close>) gives the absent marker, and whether a line is read does not
  depend on what these three fields hold.
\<close>

theorem pen_numeric_strips:
  "pen_numeric P ''1,234%'' = pen_numeric P ''1234''
   \<and> pen_numeric P s =
       to_numeric_coerce P
         (filter (\<lambda>c. c \<noteq> CHR '','' \<and> c \<noteq> CHR ''%'') (astype_str (as_str pen_na s)))
   \<and> pen_numeric P ''n/a'' = None
   \<and> (float_of_text P (filter (\<lambda>c. c \<noteq> CHR '','' \<and> c \<noteq> CHR ''%'') s) = None \<longrightarrow>
        pen_numeric P s = None)
   \<and> (read_penetration P fs path = Inr t \<and> fs path = Some lines \<and> j < length t \<longrightarrow>
        pen_eligibles (t ! j) = pen_numeric P (field (lines ! Suc j) 8)
        \<and> pen_enrolled (t ! j) = pen_numeric P (field (lines ! Suc j) 9)
        \<and> pen_penetration (t ! j) = pen_numeric P (field (lines ! Suc j) 10))
   \<and> (pen_of_line P [f0, f1, f2, f3, f4, f5, f6, f7, a, b, c] = Inr r \<longrightarrow>
        pen_of_line P [f0, f1, f2, f3, f4, f5, f6, f7, a', b', c'] =
          Inr (r\<lparr>pen_eligibles := pen_numeric P a', pen_enrolled := pen_numeric P b',
                 pen_penetration := pen_numeric P c'\<rparr>))"
proof (intro conjI impI; (elim conjE)?)
  show "pen_numeric P ''1,234%'' = pen_numeric P ''1234''"
    by (simp add: pen_numeric_def str_remove_def astype_str_def as_str_def is_na_def
        pen_na_def STR_NA_VALUES_def)
  show eq: "pen_numeric P s =
       to_numeric_coerce P
         (filter (\<lambda>c. c \<noteq> CHR '','' \<and> c \<noteq> CHR ''%'') (astype_str (as_str pen_na s)))"
    by (simp add: pen_numeric_def str_remove_def conj_commute)
  show "pen_numeric P ''n/a'' = None"
    by (simp add: pen_numeric_def str_remove_def astype_str_def as_str_def is_na_def
        pen_na_def STR_NA_VALUES_def to_numeric_coerce_def)
  {
    assume "float_of_text P (filter (\<lambda>c. c \<noteq> CHR '','' \<and> c \<noteq> CHR ''%'') s) = None"
    then show "pen_numeric P s = None"
      by (simp add: eq astype_str_def as_str_def to_numeric_coerce_def)
  }
  {
    assume "read_penetration P fs path = Inr t" "fs path = Some lines" "j < length t"
    then have l: "pen_of_line P (lines ! Suc j) = Inr (t ! j)"
      unfolding read_penetration_def by (rule read_csv_Inr_nth)
    from pen_of_line_InrD(9-11) [OF l]
    show "pen_eligibles (t ! j) = pen_numeric P (field (lines ! Suc j) 8)"
      "pen_enrolled (t ! j) = pen_numeric P (field (lines ! Suc j) 9)"
      "pen_penetration (t ! j) = pen_numeric P (field (lines ! Suc j) 10)"
      by simp_all
  }
  {
    assume "pen_of_line P [f0, f1, f2, f3, f4, f5, f6, f7, a, b, c] = Inr r"
    then show "pen_of_line P [f0, f1, f2, f3, f4, f5, f6, f7, a', b', c'] =
          Inr (r\<lparr>pen_eligibles := pen_numeric P a', pen_enrolled := pen_numeric P b',
                 pen_penetration := pen_numeric P c'\<rparr>)"
      by (auto simp: pen_of_line_def bind_err_def field_def split: sum.splits)
  }
qed

theorem pen_numeric_strips_witness:
  "float_of_text digits_only (filter (\<lambda>c. c \<noteq> CHR '','' \<and> c \<noteq> CHR ''%'') ''12x%'') = None
   \<and> pen_numeric digits_only ''12x%'' = None
   \<and> pen_numeric digits_only ''1,234%'' = Some 1234
   \<and> read_penetration digits_only ex_fs_readers ''pen.csv'' = Inr ex_pen_rows
   \<and> pen_eligibles (ex_pen_rows ! 0) = pen_numeric digits_only ''1,234''
   \<and> pen_eligibles (ex_pen_rows ! 0) = Some 1234
   \<and> pen_penetration (ex_pen_rows ! 0) = pen_numeric digits_only ''2%''
   \<and> pen_eligibles (ex_pen_rows ! 1) = pen_numeric digits_only ''12x%''
   \<and> pen_enrolled (ex_pen_rows ! 1) = pen_numeric digits_only ''n/a''
   \<and> pen_of_line digits_only (ex_pen_file ! 1) = Inr (ex_pen_rows ! 0)
   \<and> pen_of_line digits_only
        [''Alabama'', ''Autauga'', ''1'', ''1'', ''1001'', ''1'', ''0'', ''1000'',
         ''n/a'', ''x'', ''%,''] =
       Inr ((ex_pen_rows ! 0)\<lparr>pen_eligibles := None, pen_enrolled := None,
              pen_penetration := None\<rparr>)"
proof -
  have h: "float_of_text digits_only
             (filter (\<lambda>c. c \<noteq> CHR '','' \<and> c \<noteq> CHR ''%'') ''12x%'') = None"
    by (simp add: digits_only_simps)
  have v: "pen_numeric digits_only ''1,234%'' = Some 1234"
    by (simp add: pen_numeric_def str_remove_def astype_str_def as_str_def is_na_def
        pen_na_def STR_NA_VALUES_def to_numeric_coerce_def digits_only_simps)
  have n: "pen_numeric digits_only ''x'' = None" "pen_numeric digits_only ''%,'' = None"
    by (simp_all add: pen_numeric_def str_remove_def astype_str_def as_str_def is_na_def
        pen_na_def STR_NA_VALUES_def to_numeric_coerce_def digits_only_def py_nat_def
        digit_val_def)
  have fl: "field (ex_pen_file ! Suc 0) 8 = ''1,234''" "field (ex_pen_file ! Suc 0) 10 = ''2%''"
    "field (ex_pen_file ! Suc 1) 8 = ''12x%''" "field (ex_pen_file ! Suc 1) 9 = ''n/a''"
    by (simp_all add: field_def ex_pen_file_def)
  have len: "length ex_pen_rows = 2"
    by (simp add: ex_pen_rows_def)
  then have lt: "0 < length ex_pen_rows" "1 < length ex_pen_rows"
    by simp_all
  have l1: "pen_of_line digits_only (ex_pen_file ! 1) = Inr (ex_pen_rows ! 0)"
    using read_csv_Inr_nth [OF read_pen_ex [unfolded read_penetration_def] fs_readers(4), of 0]
      len by simp
  then have l1': "pen_of_line digits_only
        [''Alabama'', ''Autauga'', ''1'', ''1'', ''1001'', ''1'', ''0'', ''1000'', ''1,234'',
         ''25'', ''2%''] = Inr (ex_pen_rows ! 0)"
    by (simp add: ex_pen_file_def)
  note s = pen_numeric_strips [where P = digits_only]
  from s [where s = "''12x%''"] h have a: "pen_numeric digits_only ''12x%'' = None"
    by blast
  from s [where fs = ex_fs_readers and path = "''pen.csv''" and lines = ex_pen_file
      and t = ex_pen_rows and j = 0] read_pen_ex fs_readers(4) lt(1)
  have "pen_eligibles (ex_pen_rows ! 0) = pen_numeric digits_only (field (ex_pen_file ! Suc 0) 8)"
    "pen_penetration (ex_pen_rows ! 0) = pen_numeric digits_only (field (ex_pen_file ! Suc 0) 10)"
    by blast+
  then have r0: "pen_eligibles (ex_pen_rows ! 0) = pen_numeric digits_only ''1,234''"
    "pen_penetration (ex_pen_rows ! 0) = pen_numeric digits_only ''2%''"
    by (simp_all only: fl)
  from s [where fs = ex_fs_readers and path = "''pen.csv''" and lines = ex_pen_file
      and t = ex_pen_rows and j = 1] read_pen_ex fs_readers(4) lt(2)
  have "pen_eligibles (ex_pen_rows ! 1) = pen_numeric digits_only (field (ex_pen_file ! Suc 1) 8)"
    "pen_enrolled (ex_pen_rows ! 1) = pen_numeric digits_only (field (ex_pen_file ! Suc 1) 9)"
    by blast+
  then have r1: "pen_eligibles (ex_pen_rows ! 1) = pen_numeric digits_only ''12x%''"
    "pen_enrolled (ex_pen_rows ! 1) = pen_numeric digits_only ''n/a''"
    by (simp_all only: fl)
  from s [where ?f0.0 = "''Alabama''" and ?f1.0 = "''Autauga''" and ?f2.0 = "''1''"
      and ?f3.0 = "''1''" and ?f4.0 = "''1001''" and ?f5.0 = "''1''" and ?f6.0 = "''0''"
      and ?f7.0 = "''1000''" and a = "''1,234''" and b = "''25''" and c = "''2%''"
      and r = "ex_pen_rows ! 0" and a' = "''n/a''" and b' = "''x''" and c' = "''%,''"] l1'
  have "pen_of_line digits_only
        [''Alabama'', ''Autauga'', ''1'', ''1'', ''1001'', ''1'', ''0'', ''1000'',
         ''n/a'', ''x'', ''%,''] =
       Inr ((ex_pen_rows ! 0)\<lparr>pen_eligibles := pen_numeric digits_only ''n/a'',
              pen_enrolled := pen_numeric digits_only ''x'',
              pen_penetration := pen_numeric digits_only ''%,''\<rparr>)"
    by blast
  moreover have "pen_numeric digits_only ''n/a'' = None"
    using s [where s = "''n/a''"] by blast
  ultimately
  have nr: "pen_of_line digits_only
        [''Alabama'', ''Autauga'', ''1'', ''1'', ''1001'', ''1'', ''0'', ''1000'',
         ''n/a'', ''x'', ''%,''] =
       Inr ((ex_pen_rows ! 0)\<lparr>pen_eligibles := None, pen_enrolled := None,
              pen_penetration := None\<rparr>)"
    by (simp only: n)
  have e: "pen_eligibles (ex_pen_rows ! 0) = Some 1234"
    by (simp add: ex_pen_rows_def)
  have l1'': "pen_of_line digits_only (ex_pen_file ! 1) = Inr (ex_pen_rows ! 0)"
    using l1 by simp
  from h a v read_pen_ex r0 e r1 l1'' nr show ?thesis by (intro conjI)
qed

text \<open>
  C7.  In the table the service-area reader returns, the partial-coverage field is true
  where the line has the text \<open>TRUE\<close>, false where it has \<open>FALSE\<close>, and absent for every
  other text; the dictionary also takes the booleans themselves, and whether a line is
  read does not depend on what the field holds.
\<close>

theorem partial_of_text_cases:
  "partial_of_text ''TRUE'' = Some True
   \<and> partial_of_text ''FALSE'' = Some False
   \<and> series_map partial_dict (Some (Bool b)) = Some b
   \<and> (s \<noteq> ''TRUE'' \<and> s \<noteq> ''FALSE'' \<longrightarrow> partial_of_text s = None)
   \<and> (read_service_area P fs path = Inr t \<and> fs path = Some lines \<and> j < length t \<longrightarrow>
        sa_partial (t ! j) = partial_of_text (field (lines ! Suc j) 4)
        \<and> (field (lines ! Suc j) 4 = ''TRUE'' \<longrightarrow> sa_partial (t ! j) = Some True)
        \<and> (field (lines ! Suc j) 4 = ''FALSE'' \<longrightarrow> sa_partial (t ! j) = Some False)
        \<and> (field (lines ! Suc j) 4 \<noteq> ''TRUE'' \<and> field (lines ! Suc j) 4 \<noteq> ''FALSE'' \<longrightarrow>
             sa_partial (t ! j) = None))
   \<and> (sa_of_line P [f0, f1, f2, f3, p, f5, f6, f7, f8, f9, f10] = Inr r \<longrightarrow>
        sa_of_line P [f0, f1, f2, f3, p', f5, f6, f7, f8, f9, f10] =
          Inr (r\<lparr>sa_partial := partial_of_text p'\<rparr>))"
proof -
  have T: "partial_of_text ''TRUE'' = Some True" and F: "partial_of_text ''FALSE'' = Some False"
    by (simp_all add: partial_of_text_def series_map_def partial_dict_def as_str_def
        is_na_def sa_na_def STR_NA_VALUES_def)
  have B: "series_map partial_dict (Some (Bool b)) = Some b"
    by (cases b) (simp_all add: series_map_def partial_dict_def)
  have N: "partial_of_text s = None" if "s \<noteq> ''TRUE'' \<and> s \<noteq> ''FALSE''" for s
    using that by (auto simp: partial_of_text_def series_map_def partial_dict_def as_str_def)
  have R: "sa_partial (t ! j) = partial_of_text (field (lines ! Suc j) 4)"
    if "read_service_area P fs path = Inr t \<and> fs path = Some lines \<and> j < length t"
  proof -
    from that have "sa_of_line P (lines ! Suc j) = Inr (t ! j)"
      unfolding read_service_area_def by (blast intro: read_csv_Inr_nth)
    then show ?thesis by (rule sa_of_line_InrD(5))
  qed
  have L: "sa_of_line P [f0, f1, f2, f3, p', f5, f6, f7, f8, f9, f10] =
          Inr (r\<lparr>sa_partial := partial_of_text p'\<rparr>)"
    if "sa_of_line P [f0, f1, f2, f3, p, f5, f6, f7, f8, f9, f10] = Inr r"
    using that by (auto simp: sa_of_line_def bind_err_def field_def split: sum.splits)
  show ?thesis
  proof (intro conjI impI)
    show "partial_of_text ''TRUE'' = Some True" by (rule T)
    show "partial_of_text ''FALSE'' = Some False" by (rule F)
    show "series_map partial_dict (Some (Bool b)) = Some b" by (rule B)
    show "partial_of_text s = None" if "s \<noteq> ''TRUE'' \<and> s \<noteq> ''FALSE''"
      using that by (rule N)
    show "sa_partial (t ! j) = partial_of_text (field (lines ! Suc j) 4)"
      if "read_service_area P fs path = Inr t \<and> fs path = Some lines \<and> j < length t"
      using that by (rule R)
    show "sa_partial (t ! j) = Some True"
      if "read_service_area P fs path = Inr t \<and> fs path = Some lines \<and> j < length t"
        and "field (lines ! Suc j) 4 = ''TRUE''"
      using R [OF that(1)] that(2) T by (simp only:)
    show "sa_partial (t ! j) = Some False"
      if "read_service_area P fs path = Inr t \<and> fs path = Some lines \<and> j < length t"
        and "field (lines ! Suc j) 4 = ''FALSE''"
      using R [OF that(1)] that(2) F by (simp only:)
    show "sa_partial (t ! j) = None"
      if "read_service_area P fs path = Inr t \<and> fs path = Some lines \<and> j < length t"
        and "field (lines ! Suc j) 4 \<noteq> ''TRUE'' \<and> field (lines ! Suc j) 4 \<noteq> ''FALSE''"
      using R [OF that(1)] N [OF that(2)] by (simp only:)
    show "sa_of_line P [f0, f1, f2, f3, p', f5, f6, f7, f8, f9, f10] =
          Inr (r\<lparr>sa_partial := partial_of_text p'\<rparr>)"
      if "sa_of_line P [f0, f1, f2, f3, p, f5, f6, f7, f8, f9, f10] = Inr r"
      using that by (rule L)
  qed
qed

theorem partial_of_text_cases_witness:
  "''true'' \<noteq> ''TRUE'' \<and> ''true'' \<noteq> ''FALSE'' \<and> partial_of_text ''true'' = None
   \<and> read_service_area digits_only ex_fs_readers ''sa.csv'' = Inr ex_sa_rows
   \<and> field (ex_sa_file ! 1) 4 = ''TRUE'' \<and> sa_partial (ex_sa_rows ! 0) = Some True
   \<and> field (ex_sa_file ! 2) 4 = ''FALSE'' \<and> sa_partial (ex_sa_rows ! 1) = Some False
   \<and> field (ex_sa_file ! 3) 4 = ''true'' \<and> sa_partial (ex_sa_rows ! 2) = None
   \<and> sa_of_line digits_only (ex_sa_file ! 1) = Inr (ex_sa_rows ! 0)
   \<and> sa_of_line digits_only
        [''H1234'', ''Acme'', ''Local CCP'', ''HMO'', ''maybe'', ''No'', ''1000'', ''1001'',
         ''Autauga'', ''AL'', ''none''] =
       Inr ((ex_sa_rows ! 0)\<lparr>sa_partial := None\<rparr>)"
proof -
  note s = partial_of_text_cases [where P = digits_only]
  note s4 = s [THEN conjunct2, THEN conjunct2, THEN conjunct2, THEN conjunct1, rule_format]
  note s5 = s [THEN conjunct2, THEN conjunct2, THEN conjunct2, THEN conjunct2, THEN conjunct1,
      rule_format]
  note s6 = s [THEN conjunct2, THEN conjunct2, THEN conjunct2, THEN conjunct2, THEN conjunct2,
      rule_format]
  have n: "''true'' \<noteq> ''TRUE''" "''true'' \<noteq> ''FALSE''"
    by simp_all
  have n': "''maybe'' \<noteq> ''TRUE'' \<and> ''maybe'' \<noteq> ''FALSE''"
    by simp
  have t: "partial_of_text ''true'' = None"
    using n by (intro s4 conjI)
  have mb: "partial_of_text ''maybe'' = None"
    using n' by (rule s4)
  have f: "field (ex_sa_file ! Suc 0) 4 = ''TRUE''" "field (ex_sa_file ! Suc 1) 4 = ''FALSE''"
    "field (ex_sa_file ! Suc 2) 4 = ''true''"
    by (simp_all add: field_def ex_sa_file_def)
  have f': "field (ex_sa_file ! 1) 4 = ''TRUE''" "field (ex_sa_file ! 2) 4 = ''FALSE''"
    "field (ex_sa_file ! 3) 4 = ''true''"
    by (simp_all add: field_def ex_sa_file_def)
  have lt: "0 < length ex_sa_rows" "1 < length ex_sa_rows" "2 < length ex_sa_rows"
    by (simp_all add: ex_sa_rows_def)
  have h: "read_service_area digits_only ex_fs_readers ''sa.csv'' = Inr ex_sa_rows
      \<and> ex_fs_readers ''sa.csv'' = Some ex_sa_file \<and> j < length ex_sa_rows"
    if "j < length ex_sa_rows" for j
    using read_sa_ex fs_readers(3) that by (intro conjI)
  have r0: "sa_partial (ex_sa_rows ! 0) = Some True"
    using s5 [OF h [OF lt(1)], THEN conjunct2, THEN conjunct1] f(1) by (rule mp)
  have r1: "sa_partial (ex_sa_rows ! 1) = Some False"
    using s5 [OF h [OF lt(2)], THEN conjunct2, THEN conjunct2, THEN conjunct1] f(2)
    by (rule mp)
  have "field (ex_sa_file ! Suc 2) 4 \<noteq> ''TRUE'' \<and> field (ex_sa_file ! Suc 2) 4 \<noteq> ''FALSE''"
    unfolding f(3) using n by (intro conjI)
  with s5 [OF h [OF lt(3)], THEN conjunct2, THEN conjunct2, THEN conjunct2]
  have r2: "sa_partial (ex_sa_rows ! 2) = None"
    by (rule mp)
  have l0: "sa_of_line digits_only (ex_sa_file ! Suc 0) = Inr (ex_sa_rows ! 0)"
    using read_csv_Inr_nth [OF read_sa_ex [unfolded read_service_area_def] fs_readers(3) lt(1)] .
  then have l0': "sa_of_line digits_only
        [''H1234'', ''Acme'', ''Local CCP'', ''HMO'', ''TRUE'', ''No'', ''1000'', ''1001'',
         ''Autauga'', ''AL'', ''none''] = Inr (ex_sa_rows ! 0)"
    by (simp add: ex_sa_file_def)
  have "sa_of_line digits_only
        [''H1234'', ''Acme'', ''Local CCP'', ''HMO'', ''maybe'', ''No'', ''1000'', ''1001'',
         ''Autauga'', ''AL'', ''none''] =
       Inr ((ex_sa_rows ! 0)\<lparr>sa_partial := partial_of_text ''maybe''\<rparr>)"
    using l0' by (rule s6)
  then have nr: "sa_of_line digits_only
        [''H1234'', ''Acme'', ''Local CCP'', ''HMO'', ''maybe'', ''No'', ''1000'', ''1001'',
         ''Autauga'', ''AL'', ''none''] =
       Inr ((ex_sa_rows ! 0)\<lparr>sa_partial := None\<rparr>)"
    by (simp only: mb)
  have l0'': "sa_of_line digits_only (ex_sa_file ! 1) = Inr (ex_sa_rows ! 0)"
    using l0 by simp
  from n t read_sa_ex f' r0 r1 r2 l0'' nr show ?thesis by (intro conjI)
qed

section \<open>The monthly loaders\<close>

lemma load_month_Inr:
  assumes "load_month P fs m y = Inr t"
  shows "\<exists>cs es mi. read_contract P fs (c_path m y) = Inr cs
     \<and> read_enroll P fs (e_path m y) = Inr es
     \<and> py_int m = Some mi
     \<and> t = map (\<lambda>r. \<lparr>data = r, month = mi, year = y\<rparr>)
          (merge_left contract_key enroll_key join_enroll
             (drop_duplicates contract_key cs) es)"
  using assms
  by (auto simp: load_month_def bind_err_def stamp_def
      split: if_splits sum.splits option.splits)

text \<open>
  C3.  A loader asked for a period whose file does not exist raises
  \<open>FileNotFoundError\<close> with the expected path in its message, whatever the other files
  hold: \<open>load_month\<close> by its own checks, first for the contract file and then for the
  enrollment file, before it reads anything; \<open>load_month_sa\<close> and \<open>load_month_pen\<close>
  when \<open>read_csv\<close> opens the file.
\<close>

theorem missing_file_errors:
  "(fs (c_path m y) = None \<longrightarrow>
      load_month P fs m y =
        Inl (FileNotFoundError (''Missing contract file: '' @ c_path m y)))
   \<and> (fs (c_path m y) \<noteq> None \<and> fs (e_path m y) = None \<longrightarrow>
      load_month P fs m y =
        Inl (FileNotFoundError (''Missing enrollment file: '' @ e_path m y)))
   \<and> (fs (sa_path m y) = None \<longrightarrow>
      load_month_sa P fs m y =
        Inl (FileNotFoundError
          (''[Errno 2] No such file or directory: '' @ [CHR 0x27] @ sa_path m y @ [CHR 0x27])))
   \<and> (fs (pen_path m y) = None \<longrightarrow>
      load_month_pen P fs m y =
        Inl (FileNotFoundError
          (''[Errno 2] No such file or directory: '' @ [CHR 0x27] @ pen_path m y @ [CHR 0x27])))"
  by (simp add: load_month_def load_month_sa_def load_month_pen_def read_service_area_def
      read_penetration_def read_csv_def bind_err_def)

theorem missing_file_errors_witness:
  "load_month digits_only (\<lambda>p. None) ''01'' 2015 =
     Inl (FileNotFoundError (''Missing contract file: '' @ c_path ''01'' 2015))
   \<and> load_month digits_only ex_fs_contract_only ''01'' 2015 =
     Inl (FileNotFoundError (''Missing enrollment file: '' @ e_path ''01'' 2015))
   \<and> load_month_sa digits_only ex_fs_contract_only ''01'' 2015 =
     Inl (FileNotFoundError
       (''[Errno 2] No such file or directory: '' @ [CHR 0x27] @ sa_path ''01'' 2015
          @ [CHR 0x27]))
   \<and> load_month_pen digits_only ex_fs_contract_only ''01'' 2015 =
     Inl (FileNotFoundError
       (''[Errno 2] No such file or directory: '' @ [CHR 0x27] @ pen_path ''01'' 2015
          @ [CHR 0x27]))"
proof -
  have e: "ex_fs_contract_only (c_path ''01'' 2015) \<noteq> None"
    "ex_fs_contract_only (e_path ''01'' 2015) = None"
    by (simp_all add: ex_fs_contract_only_def paths_neq)
  have s: "ex_fs_contract_only (sa_path ''01'' 2015) = None"
    "ex_fs_contract_only (pen_path ''01'' 2015) = None"
    by (simp_all add: ex_fs_contract_only_def c_path_def sa_path_def pen_path_def
        enrollment_dir_def MA_DATA_DIR_def)
  show ?thesis
    using missing_file_errors [of "\<lambda>p. None" "''01''" 2015 digits_only]
      missing_file_errors [of ex_fs_contract_only "''01''" 2015 digits_only] e s
    by simp
qed

text \<open>
  C9.  When \<open>load_month\<close> returns a table for the month string \<open>m\<close> and the year \<open>y\<close>,
  the string is the text of an integer, and every row of the table has that integer in
  its month column and \<open>y\<close> in its year column, the rows without an enrollment record
  among them.
\<close>

theorem load_month_stamp:
  assumes "load_month P fs m y = Inr t"
  shows "\<exists>mi. py_int m = Some mi \<and> (\<forall>r \<in> set t. month r = mi \<and> year r = y)"
proof -
  from load_month_Inr [OF assms] obtain mi rows where
    "py_int m = Some mi" "t = map (\<lambda>r. \<lparr>data = r, month = mi, year = y\<rparr>) rows"
    by blast
  then show ?thesis by auto
qed

theorem load_month_stamp_witness:
  "load_month digits_only ex_fs ''01'' 2015 = Inr ex_panel
   \<and> (\<exists>mi. py_int ''01'' = Some mi \<and> (\<forall>r \<in> set ex_panel. month r = mi \<and> year r = 2015))"
  using load_month_stamp [OF load_month_ex] load_month_ex by simp

text \<open>
  C1, as the code has it.  The table \<open>load_month\<close> returns is, row for row and in the
  order of the deduplicated contract table: for each of its rows, one row per enrollment
  row of the same (contractid, planid), carrying that row's enrollment fields, and
  exactly one row with the enrollment fields absent when there is none.  So no contract
  row is dropped, the row count is at least that of the deduplicated contract table,
  and it equals it when no key has more than one enrollment row.
\<close>

theorem load_month_row_count:
  assumes "load_month P fs m y = Inr t"
  shows "\<exists>cs es.
     read_contract P fs (c_path m y) = Inr cs \<and> read_enroll P fs (e_path m y) = Inr es
     \<and> map data t =
         concat (map (\<lambda>c.
           if filter (\<lambda>e. enroll_key e = contract_key c) es = [] then
             [\<lparr>p_contract = c, p_ssa = None, p_fips = None, p_state = None, p_county = None,
               p_enrollment = None\<rparr>]
           else
             map (\<lambda>e. \<lparr>p_contract = c, p_ssa = e_ssa e, p_fips = e_fips e, p_state = e_state e,
                        p_county = e_county e, p_enrollment = e_enrollment e\<rparr>)
               (filter (\<lambda>e. enroll_key e = contract_key c) es))
           (drop_duplicates contract_key cs))
     \<and> length t =
         sum_list (map (\<lambda>c. max 1 (length (filter (\<lambda>e. enroll_key e = contract_key c) es)))
           (drop_duplicates contract_key cs))
     \<and> length (drop_duplicates contract_key cs) \<le> length t
     \<and> ((\<forall>c \<in> set (drop_duplicates contract_key cs).
           length (filter (\<lambda>e. enroll_key e = contract_key c) es) \<le> 1) \<longrightarrow>
         length t = length (drop_duplicates contract_key cs))"
proof -
  from load_month_Inr [OF assms] obtain cs es mi where
    cs: "read_contract P fs (c_path m y) = Inr cs" and
    es: "read_enroll P fs (e_path m y) = Inr es" and
    t: "t = map (\<lambda>r. \<lparr>data = r, month = mi, year = y\<rparr>)
          (merge_left contract_key enroll_key join_enroll
             (drop_duplicates contract_key cs) es)"
    by blast
  let ?cd = "drop_duplicates contract_key cs"
  let ?mg = "merge_left contract_key enroll_key join_enroll ?cd es"
  have data: "map data t = ?mg"
    unfolding t by (simp add: comp_def)
  have rows: "?mg =
         concat (map (\<lambda>c.
           if filter (\<lambda>e. enroll_key e = contract_key c) es = [] then
             [\<lparr>p_contract = c, p_ssa = None, p_fips = None, p_state = None, p_county = None,
               p_enrollment = None\<rparr>]
           else
             map (\<lambda>e. \<lparr>p_contract = c, p_ssa = e_ssa e, p_fips = e_fips e, p_state = e_state e,
                        p_county = e_county e, p_enrollment = e_enrollment e\<rparr>)
               (filter (\<lambda>e. enroll_key e = contract_key c) es))
           ?cd)"
    by (simp add: merge_left_def Let_def join_enroll_def cong: if_cong)
  have len: "length t = length ?mg"
    unfolding t by simp
  have count: "length t =
      sum_list (map (\<lambda>c. max 1 (length (filter (\<lambda>e. enroll_key e = contract_key c) es))) ?cd)"
    unfolding len by (rule length_merge_left)
  have ge: "length ?cd \<le> length t"
    unfolding len by (rule length_merge_left_ge)
  have uniq: "(\<forall>c \<in> set ?cd. length (filter (\<lambda>e. enroll_key e = contract_key c) es) \<le> 1)
      \<longrightarrow> length t = length ?cd"
    unfolding len by (simp add: length_merge_left_unique)
  from cs es data [unfolded rows] count ge uniq show ?thesis
    by (intro exI [of _ cs] exI [of _ es] conjI)
qed

theorem load_month_row_count_witness:
  "load_month digits_only ex_fs ''01'' 2015 = Inr ex_panel
   \<and> length ex_panel = 3
   \<and> length (drop_duplicates contract_key ex_contract_rows) = 2
   \<and> load_month digits_only ex_fs_one ''01'' 2015 = Inr ex_panel_one
   \<and> length ex_panel_one = length (drop_duplicates contract_key ex_contract_rows)"
proof -
  from load_month_row_count [OF load_month_ex] obtain cs es where
    "read_contract digits_only ex_fs (c_path ''01'' 2015) = Inr cs"
    "read_enroll digits_only ex_fs (e_path ''01'' 2015) = Inr es"
    "length ex_panel =
       sum_list (map (\<lambda>c. max 1 (length (filter (\<lambda>e. enroll_key e = contract_key c) es)))
         (drop_duplicates contract_key cs))"
    by blast
  then have three: "length ex_panel =
       sum_list (map (\<lambda>c. max 1 (length (filter (\<lambda>e. enroll_key e = contract_key c) ex_enroll_rows)))
         (drop_duplicates contract_key ex_contract_rows))"
    by (simp add: read_contract_ex read_enroll_ex)
  have l3: "length ex_panel = 3"
    unfolding three dedup_ex
    by (simp add: ex_contract_rows_def ex_enroll_rows_def contract_key_def enroll_key_def)
  from load_month_row_count [OF load_month_ex_one] obtain cs es where
    cs: "read_contract digits_only ex_fs_one (c_path ''01'' 2015) = Inr cs" and
    es: "read_enroll digits_only ex_fs_one (e_path ''01'' 2015) = Inr es" and
    imp: "(\<forall>c \<in> set (drop_duplicates contract_key cs).
           length (filter (\<lambda>e. enroll_key e = contract_key c) es) \<le> 1) \<longrightarrow>
         length ex_panel_one = length (drop_duplicates contract_key cs)"
    by blast
  from cs es have "cs = ex_contract_rows" "es = [ex_enroll_rows ! 0]"
    by (simp_all add: read_contract_ex_one read_enroll_ex_one)
  with imp matches_ex_one have one:
    "length ex_panel_one = length (drop_duplicates contract_key ex_contract_rows)"
    by blast
  from l3 one load_month_ex load_month_ex_one show ?thesis
    by (simp add: dedup_ex)
qed

text \<open>
  C1, as stated, fails: with two enrollment rows for one plan the loader returns three
  rows, and the deduplicated contract table has two.
\<close>

theorem load_month_row_count_counterexample:
  "load_month digits_only ex_fs ''01'' 2015 = Inr ex_panel
   \<and> read_contract digits_only ex_fs (c_path ''01'' 2015) = Inr ex_contract_rows
   \<and> length ex_panel = 3
   \<and> length (drop_duplicates contract_key ex_contract_rows) = 2"
  by (simp add: load_month_ex read_contract_ex dedup_ex ex_panel_def)

section \<open>The premium merger\<close>

subsection \<open>The run of \<open>mapd_clean_merge\<close> on a store\<close>

lemma deref_Some: "deref h a = Some fr \<longleftrightarrow> a < length h \<and> h ! a = fr"
  by (auto simp: deref_def)

lemma new_from_Inr:
  "new_from f h a = Inr res \<longleftrightarrow>
     (\<exists>fr fr'. deref h a = Some fr \<and> f fr = Inr fr' \<and> res = (length h, h @ [fr']))"
  by (cases "deref h a"; cases "f (the (deref h a))")
     (auto simp: new_from_def bind_err_def alloc_def)

lemma set_in_Inr:
  "set_in f h a = Inr h' \<longleftrightarrow>
     (\<exists>fr fr'. deref h a = Some fr \<and> f fr = Inr fr' \<and> h' = h[a := fr'])"
  by (cases "deref h a"; cases "f (the (deref h a))")
     (auto simp: set_in_def bind_err_def)

lemma bind_err_Inr: "bind_err m f = Inr y \<longleftrightarrow> (\<exists>x. m = Inr x \<and> f x = Inr y)"
  by (cases m) (auto simp: bind_err_def)

lemma on_ma_Inr: "on_ma f fr = Inr fr' \<longleftrightarrow> (\<exists>t. fr = Ma t \<and> fr' = Ma (f t))"
  by (cases fr) auto

lemma on_mapd_Inr: "on_mapd f fr = Inr fr' \<longleftrightarrow> (\<exists>t. fr = Mapd t \<and> fr' = Mapd (f t))"
  by (cases fr) auto

lemma on_mapd_raw_Inr: "on_mapd_raw f fr = Inr fr' \<longleftrightarrow> (\<exists>t. fr = MapdRaw t \<and> fr' = MapdRaw (f t))"
  by (cases fr) auto

lemma to_numeric_planid_Inr:
  "to_numeric_planid P fr = Inr fr' \<longleftrightarrow> (\<exists>t. fr = MapdRaw t \<and> fr' = Mapd (mapd_numeric P t))"
  by (cases fr) auto

lemma stamp_year_Inr:
  "stamp_year y fr = Inr fr' \<longleftrightarrow> (\<exists>t. fr = Merged t \<and> fr' = Premiums (set_year y t))"
  by (cases fr) auto

lemma tidy_ma_only_Inr:
  "tidy_ma_only h a = Inr res \<longleftrightarrow>
     (\<exists>t. deref h a = Some (Ma t) \<and>
          res = (length h + 3, h @ [Ma t, Ma t, Ma (ma_ffill (ma_sort t)), Ma (ma_tidy t)]))"
  unfolding tidy_ma_only_def
  by (auto simp: bind_err_Inr new_from_Inr set_in_Inr on_ma_Inr deref_Some nth_append
      ma_tidy_def list_update_append)

lemma tidy_ma_pd_Inr:
  "tidy_ma_pd P h b = Inr res \<longleftrightarrow>
     (\<exists>t. deref h b = Some (MapdRaw t) \<and>
          res = (length h + 3,
            h @ [MapdRaw t, Mapd (mapd_numeric P t),
                 Mapd (mapd_ffill (mapd_sort (mapd_numeric P t))), Mapd (mapd_tidy P t)]))"
  unfolding tidy_ma_pd_def
  by (auto simp: bind_err_Inr new_from_Inr set_in_Inr on_mapd_Inr on_mapd_raw_Inr
      to_numeric_planid_Inr deref_Some nth_append mapd_tidy_def list_update_append)


lemma deref_past_ma:
  "deref (h @ [Ma x1, Ma x2, Ma x3, Ma x4]) b = Some (MapdRaw t) \<longleftrightarrow> deref h b = Some (MapdRaw t)"
  by (auto simp: deref_Some nth_append nth_Cons' split: if_splits)

lemma merge_frames_Inr:
  "merge_frames h a b = Inr res \<longleftrightarrow>
     (\<exists>ta tb. deref h a = Some (Ma ta) \<and> deref h b = Some (Mapd tb) \<and>
        res = (length h, h @ [Merged (merge_premiums ta tb)]))"
  by (auto simp: merge_frames_def alloc_def split: option.splits frame.splits)

lemma tidy_ma_only_ok:
  "deref h a = Some (Ma t) \<Longrightarrow>
   tidy_ma_only h a =
     Inr (length h + 3, h @ [Ma t, Ma t, Ma (ma_ffill (ma_sort t)), Ma (ma_tidy t)])"
  by (simp add: tidy_ma_only_Inr)

lemma tidy_ma_pd_ok:
  "deref h b = Some (MapdRaw t) \<Longrightarrow>
   tidy_ma_pd P h b =
     Inr (length h + 3,
       h @ [MapdRaw t, Mapd (mapd_numeric P t),
            Mapd (mapd_ffill (mapd_sort (mapd_numeric P t))), Mapd (mapd_tidy P t)])"
  by (simp add: tidy_ma_pd_Inr)

lemma mapd_clean_merge_ok:
  assumes a: "deref h a = Some (Ma t1)" and b: "deref h b = Some (MapdRaw t2)"
  shows "mapd_clean_merge P h a b y = Inr (length h + 8, h @ frames_after P t1 t2 y)"
proof -
  let ?h1 = "h @ [Ma t1, Ma t1, Ma (ma_ffill (ma_sort t1)), Ma (ma_tidy t1)]"
  let ?h2 = "?h1 @ [MapdRaw t2, Mapd (mapd_numeric P t2),
            Mapd (mapd_ffill (mapd_sort (mapd_numeric P t2))), Mapd (mapd_tidy P t2)]"
  let ?m = "Merged (merge_premiums (ma_tidy t1) (mapd_tidy P t2))"
  have b1: "deref ?h1 b = Some (MapdRaw t2)"
    using b by (simp add: deref_past_ma)
  have m: "merge_frames ?h2 (length h + 3) (length ?h1 + 3) = Inr (length ?h2, ?h2 @ [?m])"
    by (simp add: merge_frames_Inr deref_Some nth_append)
  have s: "set_in (stamp_year y) (?h2 @ [?m]) (length ?h2) =
      Inr (h @ frames_after P t1 t2 y)"
    by (simp add: set_in_Inr deref_Some nth_append stamp_year_Inr frames_after_def
        list_update_append)
  show ?thesis
    unfolding mapd_clean_merge_def
    by (simp only: tidy_ma_only_ok [OF a] tidy_ma_pd_ok [OF b1] bind_err_def m s
        sum.case prod.case) simp
qed

lemma mapd_clean_merge_Inr:
  "mapd_clean_merge P h a b y = Inr res \<longleftrightarrow>
     (\<exists>t1 t2. deref h a = Some (Ma t1) \<and> deref h b = Some (MapdRaw t2) \<and>
        res = (length h + 8, h @ frames_after P t1 t2 y))"
proof
  assume ok: "mapd_clean_merge P h a b y = Inr res"
  then obtain r1 h1 where 1: "tidy_ma_only h a = Inr (r1, h1)"
    and rest: "bind_err (tidy_ma_pd P h1 b) (\<lambda>(mapd_data, h2).
       bind_err (merge_frames h2 r1 mapd_data) (\<lambda>(plan_premiums, h3).
       bind_err (set_in (stamp_year y) h3 plan_premiums) (\<lambda>h4.
         Inr (plan_premiums, h4)))) = Inr res"
    unfolding mapd_clean_merge_def by (auto simp: bind_err_Inr)
  from 1 obtain t1 where a: "deref h a = Some (Ma t1)"
    and h1: "h1 = h @ [Ma t1, Ma t1, Ma (ma_ffill (ma_sort t1)), Ma (ma_tidy t1)]"
    by (auto simp: tidy_ma_only_Inr)
  from rest obtain x where "tidy_ma_pd P h1 b = Inr x"
    by (auto simp: bind_err_Inr)
  then obtain t2 where "deref h1 b = Some (MapdRaw t2)"
    by (auto simp: tidy_ma_pd_Inr)
  then have b: "deref h b = Some (MapdRaw t2)"
    unfolding h1 by (simp add: deref_past_ma)
  from ok mapd_clean_merge_ok [OF a b, of P y] a b show
    "\<exists>t1 t2. deref h a = Some (Ma t1) \<and> deref h b = Some (MapdRaw t2) \<and>
        res = (length h + 8, h @ frames_after P t1 t2 y)"
    by auto
next
  assume "\<exists>t1 t2. deref h a = Some (Ma t1) \<and> deref h b = Some (MapdRaw t2) \<and>
        res = (length h + 8, h @ frames_after P t1 t2 y)"
  then show "mapd_clean_merge P h a b y = Inr res"
    by (auto simp: mapd_clean_merge_ok)
qed

subsection \<open>The merged table\<close>

lemma set_merge_outer:
  "set (merge_outer kl kr mk ls rs) =
     (\<Union>l \<in> set ls. if filter (\<lambda>r. kr r = kl l) rs = [] then {mk (Some l) None}
        else (\<lambda>r. mk (Some l) (Some r)) ` set (filter (\<lambda>r. kr r = kl l) rs))
     \<union> (\<lambda>r. mk None (Some r)) ` {r \<in> set rs. kr r \<notin> kl ` set ls}"
  by (simp add: merge_outer_def set_merge_left)

lemma pp_key_join:
  "pp_key (join_premiums (Some l) ro) = ma_key l"
  "pp_key (join_premiums None (Some r)) = mapd_key r"
  by (simp_all add: pp_key_def ma_key_def mapd_key_def)

lemma join_premiums_fields:
  "pp_premium (join_premiums (Some l) ro) = ma_premium l"
  "pp_premium (join_premiums None (Some r)) = None"
  "pp_premium_partc (join_premiums (Some l) None) = None"
  "pp_premium_partd_basic (join_premiums (Some l) None) = None"
  "pp_premium_partd_supp (join_premiums (Some l) None) = None"
  "pp_premium_partd_total (join_premiums (Some l) None) = None"
  "pp_partd_deductible (join_premiums (Some l) None) = None"
  by simp_all

declare join_premiums.simps [simp del]

lemma merge_premiums_cases:
  assumes "q \<in> set (merge_premiums ls rs)"
  shows "(\<exists>l \<in> set ls. ma_key l \<notin> mapd_key ` set rs \<and> q = join_premiums (Some l) None)
    \<or> (\<exists>l \<in> set ls. \<exists>r \<in> set rs. mapd_key r = ma_key l \<and> q = join_premiums (Some l) (Some r))
    \<or> (\<exists>r \<in> set rs. mapd_key r \<notin> ma_key ` set ls \<and> q = join_premiums None (Some r))"
proof -
  let ?m = "\<lambda>l. filter (\<lambda>r. mapd_key r = ma_key l) rs"
  from assms consider
    (left) l where "l \<in> set ls"
      "q \<in> (if ?m l = [] then {join_premiums (Some l) None}
            else (\<lambda>r. join_premiums (Some l) (Some r)) ` set (?m l))"
  | (right) r where "r \<in> set rs" "mapd_key r \<notin> ma_key ` set ls"
      "q = join_premiums None (Some r)"
    unfolding merge_premiums_def set_merge_outer by blast
  then show ?thesis
  proof cases
    case left
    show ?thesis
    proof (cases "?m l = []")
      case True
      then have "ma_key l \<notin> mapd_key ` set rs"
        by (auto simp: filter_empty_conv)
      with left True show ?thesis by auto
    next
      case False
      with left obtain r where "r \<in> set rs" "mapd_key r = ma_key l"
        "q = join_premiums (Some l) (Some r)"
        by auto
      with left(1) show ?thesis by blast
    qed
  next
    case right
    then show ?thesis by blast
  qed
qed

lemma result_frame_mapd_clean_merge:
  assumes "deref h a = Some (Ma t1)" "deref h b = Some (MapdRaw t2)"
  shows "result_frame (mapd_clean_merge P h a b y) =
     Some (Premiums (set_year y (merge_premiums (ma_tidy t1) (mapd_tidy P t2))))"
  by (simp add: mapd_clean_merge_ok [OF assms] result_frame_def deref_def frames_after_def
      nth_append)

subsection \<open>The premium example, evaluated\<close>

lemma ma_sort_ex: "ma_sort ex_ma = [ex_ma ! 1, ex_ma ! 2, ex_ma ! 0]"
  by (simp add: ma_sort_def sort_values_def ex_ma_def ma_key_def)

lemma ma_tidy_ex: "ma_tidy ex_ma = [ex_ma ! 1, ex_ma ! 0]"
  unfolding ma_tidy_def ma_sort_ex
  by (simp add: ma_ffill_def ma_dedup_def ex_ma_def ma_key_def)

lemma mapd_numeric_ex:
  "mapd_numeric digits_only ex_mapd =
     [\<lparr>pd_contractid = Some ''H9999'', pd_planid = Some 3, pd_state = Some ''AL'',
       pd_county = Some ''Mobile'', premium_partc = Some 0, premium_partd_basic = Some 30,
       premium_partd_supp = None, premium_partd_total = Some 30,
       partd_deductible = Some 100\<rparr>,
      \<lparr>pd_contractid = Some ''H1234'', pd_planid = Some 1, pd_state = Some ''AL'',
       pd_county = Some ''Autauga'', premium_partc = Some 0, premium_partd_basic = None,
       premium_partd_supp = None, premium_partd_total = None,
       partd_deductible = None\<rparr>,
      \<lparr>pd_contractid = Some ''H1234'', pd_planid = Some 1, pd_state = Some ''AL'',
       pd_county = Some ''Autauga'', premium_partc = None, premium_partd_basic = Some 40,
       premium_partd_supp = Some 5, premium_partd_total = Some 45,
       partd_deductible = Some 200\<rparr>]"
  by (simp add: mapd_numeric_def ex_mapd_def planid_to_numeric_def to_numeric_coerce_def
      digits_only_def py_nat_def digit_val_def)

lemma mapd_tidy_ex: "mapd_tidy digits_only ex_mapd = ex_mapd_tidy"
  unfolding mapd_tidy_def mapd_numeric_ex
  by (simp add: mapd_sort_def sort_values_def mapd_ffill_def mapd_dedup_def mapd_key_def
      set_fill_cols_def Let_def ex_mapd_tidy_def)

lemma premiums_ex:
  "set_year 2015 (merge_premiums (ma_tidy ex_ma) (mapd_tidy digits_only ex_mapd)) = ex_premiums"
  unfolding ma_tidy_ex mapd_tidy_ex
  by (simp add: set_year_def merge_premiums_def merge_outer_def merge_left_def ex_ma_def
      ma_key_def mapd_key_def join_premiums.simps ex_premiums_def ex_mapd_tidy_def)

lemma deref_ex:
  "deref ex_store 0 = Some (Ma ex_ma)" "deref ex_store 1 = Some (MapdRaw ex_mapd)"
  by (simp_all add: deref_def ex_store_def)

lemma result_ex:
  "result_frame (mapd_clean_merge digits_only ex_store 0 1 2015) = Some (Premiums ex_premiums)"
  using result_frame_mapd_clean_merge [OF deref_ex, of digits_only 2015]
  by (simp add: premiums_ex)

subsection \<open>The arguments\<close>

text \<open>
  C10.  When \<open>mapd_clean_merge\<close> returns, every data frame that existed before the call
  is as it was, the two arguments among them: the function assigns columns only in data
  frames it has built itself, and the data frame it returns is a new one.
\<close>

theorem inputs_unchanged:
  assumes "mapd_clean_merge P h ma_data mapd_data y = Inr (plan_premiums, h')"
  shows "deref h' ma_data = deref h ma_data \<and> deref h' mapd_data = deref h mapd_data
    \<and> take (length h) h' = h \<and> length h \<le> plan_premiums"
proof -
  from assms obtain t1 t2 where
    a: "deref h ma_data = Some (Ma t1)" and b: "deref h mapd_data = Some (MapdRaw t2)" and
    r: "plan_premiums = length h + 8" and h': "h' = h @ frames_after P t1 t2 y"
    by (auto simp: mapd_clean_merge_Inr)
  from a b have "ma_data < length h" "mapd_data < length h"
    by (simp_all add: deref_Some)
  then show ?thesis
    unfolding h' r by (simp add: deref_def nth_append)
qed

theorem inputs_unchanged_witness:
  "mapd_clean_merge digits_only ex_store 0 1 2015 =
     Inr (10, ex_store @ frames_after digits_only ex_ma ex_mapd 2015)
   \<and> deref (ex_store @ frames_after digits_only ex_ma ex_mapd 2015) 0 = deref ex_store 0
   \<and> deref (ex_store @ frames_after digits_only ex_ma ex_mapd 2015) 1 = deref ex_store 1
   \<and> take (length ex_store) (ex_store @ frames_after digits_only ex_ma ex_mapd 2015) = ex_store
   \<and> length ex_store \<le> 10"
proof -
  have run: "mapd_clean_merge digits_only ex_store 0 1 2015 =
     Inr (10, ex_store @ frames_after digits_only ex_ma ex_mapd 2015)"
    using mapd_clean_merge_ok [OF deref_ex, of digits_only 2015] by (simp add: ex_store_def)
  from inputs_unchanged [OF run] run show ?thesis by simp
qed

subsection \<open>Keys of the merged table\<close>

text \<open>
  C5.  Given an MA-only and an MA-PD table, \<open>mapd_clean_merge\<close> returns a table in which
  every (contractid, planid, state, county) of either cleaned table is the key of exactly
  one row and no other key occurs; a row whose key only the MA-only table has carries no
  Part D fields, and a row whose key only the MA-PD table has carries no premium.  The
  keys of the cleaned tables are the keys of the inputs, the MA-PD plan identifier made
  numeric.
\<close>

theorem merged_keys_once:
  assumes "deref h ma_data = Some (Ma t1)" "deref h mapd_data = Some (MapdRaw t2)"
  shows "\<exists>out. result_frame (mapd_clean_merge P h ma_data mapd_data y) = Some (Premiums out)
    \<and> (\<forall>k. length (filter (\<lambda>p. pp_key (pp_row p) = k) out) =
          (if k \<in> ma_key ` set (ma_tidy t1) \<union> mapd_key ` set (mapd_tidy P t2) then 1 else 0))
    \<and> (\<forall>p \<in> set out. pp_key (pp_row p) \<notin> mapd_key ` set (mapd_tidy P t2) \<longrightarrow>
          pp_premium_partc (pp_row p) = None \<and> pp_premium_partd_basic (pp_row p) = None
          \<and> pp_premium_partd_supp (pp_row p) = None \<and> pp_premium_partd_total (pp_row p) = None
          \<and> pp_partd_deductible (pp_row p) = None)
    \<and> (\<forall>p \<in> set out. pp_key (pp_row p) \<notin> ma_key ` set (ma_tidy t1) \<longrightarrow>
          pp_premium (pp_row p) = None)
    \<and> ma_key ` set (ma_tidy t1) = ma_key ` set t1
    \<and> mapd_key ` set (mapd_tidy P t2) = mapd_key ` set (mapd_numeric P t2)"
proof -
  let ?ls = "ma_tidy t1" and ?rs = "mapd_tidy P t2"
  let ?out = "set_year y (merge_premiums ?ls ?rs)"
  have res: "result_frame (mapd_clean_merge P h ma_data mapd_data y) = Some (Premiums ?out)"
    using assms by (rule result_frame_mapd_clean_merge)
  have once: "length (filter (\<lambda>p. pp_key (pp_row p) = k) ?out) =
      (if k \<in> ma_key ` set ?ls \<union> mapd_key ` set ?rs then 1 else 0)" for k
  proof -
    have "length (filter (\<lambda>p. pp_key (pp_row p) = k) ?out) =
        length (filter (\<lambda>q. pp_key q = k) (merge_premiums ?ls ?rs))"
      by (simp add: set_year_def filter_map comp_def)
    also have "\<dots> = (if k \<in> ma_key ` set ?ls \<union> mapd_key ` set ?rs then 1 else 0)"
      unfolding merge_premiums_def
      by (rule merge_outer_once) (simp_all add: distinct_ma_tidy distinct_mapd_tidy pp_key_join)
    finally show ?thesis .
  qed
  have rows: "\<exists>q \<in> set (merge_premiums ?ls ?rs). pp_row p = q" if "p \<in> set ?out" for p
    using that by (auto simp: set_year_def)
  have partd: "pp_premium_partc (pp_row p) = None \<and> pp_premium_partd_basic (pp_row p) = None
          \<and> pp_premium_partd_supp (pp_row p) = None \<and> pp_premium_partd_total (pp_row p) = None
          \<and> pp_partd_deductible (pp_row p) = None"
    if "p \<in> set ?out" "pp_key (pp_row p) \<notin> mapd_key ` set ?rs" for p
  proof -
    from rows [OF that(1)] have "pp_row p \<in> set (merge_premiums ?ls ?rs)" by simp
    from merge_premiums_cases [OF this] that(2) show ?thesis
      by (auto simp: pp_key_join join_premiums_fields image_iff)
  qed
  have prem: "pp_premium (pp_row p) = None"
    if "p \<in> set ?out" "pp_key (pp_row p) \<notin> ma_key ` set ?ls" for p
  proof -
    from rows [OF that(1)] have "pp_row p \<in> set (merge_premiums ?ls ?rs)" by simp
    from merge_premiums_cases [OF this] that(2) show ?thesis
      by (auto simp: pp_key_join join_premiums_fields image_iff)
  qed
  from res once partd prem keys_ma_tidy [of t1] keys_mapd_tidy [of P t2] show ?thesis
    by (intro exI [of _ ?out] conjI allI ballI impI) blast+
qed

theorem merged_keys_once_witness:
  "deref ex_store 0 = Some (Ma ex_ma) \<and> deref ex_store 1 = Some (MapdRaw ex_mapd)
   \<and> result_frame (mapd_clean_merge digits_only ex_store 0 1 2015) = Some (Premiums ex_premiums)
   \<and> (\<exists>out. result_frame (mapd_clean_merge digits_only ex_store 0 1 2015) = Some (Premiums out)
    \<and> (\<forall>k. length (filter (\<lambda>p. pp_key (pp_row p) = k) out) =
          (if k \<in> ma_key ` set (ma_tidy ex_ma) \<union> mapd_key ` set (mapd_tidy digits_only ex_mapd)
           then 1 else 0))
    \<and> (\<forall>p \<in> set out. pp_key (pp_row p) \<notin> mapd_key ` set (mapd_tidy digits_only ex_mapd) \<longrightarrow>
          pp_premium_partc (pp_row p) = None \<and> pp_premium_partd_basic (pp_row p) = None
          \<and> pp_premium_partd_supp (pp_row p) = None \<and> pp_premium_partd_total (pp_row p) = None
          \<and> pp_partd_deductible (pp_row p) = None)
    \<and> (\<forall>p \<in> set out. pp_key (pp_row p) \<notin> ma_key ` set (ma_tidy ex_ma) \<longrightarrow>
          pp_premium (pp_row p) = None)
    \<and> ma_key ` set (ma_tidy ex_ma) = ma_key ` set ex_ma
    \<and> mapd_key ` set (mapd_tidy digits_only ex_mapd) =
        mapd_key ` set (mapd_numeric digits_only ex_mapd))"
  using merged_keys_once [OF deref_ex, of digits_only 2015] deref_ex result_ex
  by blast

subsection \<open>Forward fill and the surviving row\<close>

text \<open>
  C2, as the code has it.  For a group sharing (contractid, planid, state, county), none
  of them missing, the merged table has exactly one row, and its premium is the premium
  of the group's first row in sort order: forward fill changes only later rows of a
  group, and the deduplication keeps the first.  A first row without a premium leaves
  the surviving row without one, whatever the later rows hold.
\<close>

theorem first_row_premium_survives:
  assumes "deref h ma_data = Some (Ma t1)" "deref h mapd_data = Some (MapdRaw t2)"
    and first: "find (\<lambda>r. ma_key r = k) (ma_sort t1) = Some r0" and nonnull: "\<not> key_isnull k"
  shows "\<exists>out. result_frame (mapd_clean_merge P h ma_data mapd_data y) = Some (Premiums out)
     \<and> length (filter (\<lambda>p. pp_key (pp_row p) = k) out) = 1
     \<and> (\<forall>p \<in> set out. pp_key (pp_row p) = k \<longrightarrow> pp_premium (pp_row p) = ma_premium r0)"
proof -
  let ?ls = "ma_tidy t1" and ?rs = "mapd_tidy P t2"
  let ?out = "set_year y (merge_premiums ?ls ?rs)"
  have res: "result_frame (mapd_clean_merge P h ma_data mapd_data y) = Some (Premiums ?out)"
    using assms(1,2) by (rule result_frame_mapd_clean_merge)
  have f: "find (\<lambda>r. ma_key r = k) ?ls = Some r0"
    using first nonnull by (simp add: find_ma_tidy)
  then have r0: "r0 \<in> set ?ls" "ma_key r0 = k"
    by (auto simp: find_Some_iff)
  have "length (filter (\<lambda>p. pp_key (pp_row p) = k) ?out) =
        length (filter (\<lambda>q. pp_key q = k) (merge_premiums ?ls ?rs))"
    by (simp add: set_year_def filter_map comp_def)
  also have "\<dots> = (if k \<in> ma_key ` set ?ls \<union> mapd_key ` set ?rs then 1 else 0)"
    unfolding merge_premiums_def
    by (rule merge_outer_once) (simp_all add: distinct_ma_tidy distinct_mapd_tidy pp_key_join)
  also have "\<dots> = 1" using r0 by auto
  finally have one: "length (filter (\<lambda>p. pp_key (pp_row p) = k) ?out) = 1" .
  have prem: "pp_premium (pp_row p) = ma_premium r0"
    if p: "p \<in> set ?out" and pk: "pp_key (pp_row p) = k" for p
  proof -
    from p have m: "pp_row p \<in> set (merge_premiums ?ls ?rs)"
      by (auto simp: set_year_def)
    have kin: "k \<in> ma_key ` set ?ls"
      using r0 by blast
    from merge_premiums_cases [OF m] consider
      (left) l ro where "l \<in> set ?ls" "pp_row p = join_premiums (Some l) ro"
    | (right) r where "mapd_key r \<notin> ma_key ` set ?ls" "pp_row p = join_premiums None (Some r)"
      by blast
    then obtain l ro where
      l: "l \<in> set ?ls" and q: "pp_row p = join_premiums (Some l) ro"
    proof cases
      case left
      then show ?thesis by (rule that)
    next
      case right
      with pk kin have False by (simp add: pp_key_join)
      then show ?thesis ..
    qed
    from q pk have "ma_key l = k" by (simp add: pp_key_join)
    with l have "l = r0"
      using find_distinct_unique [OF distinct_ma_tidy f] by blast
    with q show ?thesis
      by (simp add: join_premiums_fields)
  qed
  from res one prem show ?thesis
    by (intro exI [of _ ?out] conjI ballI impI) blast+
qed

theorem first_row_premium_survives_witness:
  "find (\<lambda>r. ma_key r = ma_key (ex_ma ! 1)) (ma_sort ex_ma) = Some (ex_ma ! 1)
   \<and> \<not> key_isnull (ma_key (ex_ma ! 1))
   \<and> ma_premium (ex_ma ! 1) = None
   \<and> (\<exists>out. result_frame (mapd_clean_merge digits_only ex_store 0 1 2015) = Some (Premiums out)
     \<and> length (filter (\<lambda>p. pp_key (pp_row p) = ma_key (ex_ma ! 1)) out) = 1
     \<and> (\<forall>p \<in> set out. pp_key (pp_row p) = ma_key (ex_ma ! 1) \<longrightarrow>
           pp_premium (pp_row p) = ma_premium (ex_ma ! 1)))"
proof -
  have f: "find (\<lambda>r. ma_key r = ma_key (ex_ma ! 1)) (ma_sort ex_ma) = Some (ex_ma ! 1)"
    unfolding ma_sort_ex by simp
  have n: "\<not> key_isnull (ma_key (ex_ma ! 1))"
    by (simp add: ex_ma_def ma_key_def)
  have p: "ma_premium (ex_ma ! 1) = None"
    by (simp add: ex_ma_def)
  from first_row_premium_survives [OF deref_ex f n, of digits_only 2015] f n p
  show ?thesis by blast
qed

text \<open>
  C2, as stated, fails: the first row of the group in sort order has no premium, the
  second has 25, and the surviving row has none.
\<close>

theorem later_premium_not_carried:
  "result_frame (mapd_clean_merge digits_only ex_store 0 1 2015) = Some (Premiums ex_premiums)
   \<and> ma_sort ex_ma = [ex_ma ! 1, ex_ma ! 2, ex_ma ! 0]
   \<and> ma_key (ex_ma ! 1) = ma_key (ex_ma ! 2)
   \<and> ma_premium (ex_ma ! 1) = None
   \<and> ma_premium (ex_ma ! 2) = Some 25
   \<and> map (pp_key \<circ> pp_row) ex_premiums =
       [ma_key (ex_ma ! 1), ma_key (ex_ma ! 0),
        (Some ''H9999'', Some 3, Some ''AL'', Some ''Mobile'')]
   \<and> pp_premium (pp_row (ex_premiums ! 0)) = None"
  using result_ex
  by (simp add: ma_sort_ex) (simp add: ex_ma_def ex_premiums_def ma_key_def pp_key_def)

section \<open>Deduplication\<close>

text \<open>
  C8.  Dropping duplicates on (contractid, planid), keeping the first occurrence, is
  idempotent: applied to its own output it returns that output.  The same holds for the
  deduplication of the two premium tables on (contractid, planid, state, county).
\<close>

theorem drop_duplicates_idempotent:
  "drop_duplicates contract_key (drop_duplicates contract_key t) = drop_duplicates contract_key t
   \<and> ma_dedup (ma_dedup a) = ma_dedup a
   \<and> mapd_dedup (mapd_dedup b) = mapd_dedup b"
  unfolding ma_dedup_def mapd_dedup_def
  by (simp add: drop_duplicates_distinct_id distinct_keys_drop_duplicates)

end
